theory Spec2Isabelle
  imports Main
begin

section \<open>The Python values the file service handles\<close>

text \<open>
  The module \<^verbatim>\<open>files/files.py\<close> walks the parsed JSON answers of the PRIDE archive
  API. A parsed answer is a dynamically typed Python value: \<^verbatim>\<open>None\<close>, a bool, a number,
  a \<^verbatim>\<open>str\<close>, a \<^verbatim>\<open>list\<close> or a \<^verbatim>\<open>dict\<close> with string keys. A dict is kept as an
  association list read with \<open>map_of\<close>. Strings are \<open>char list\<close>s; a character stands
  for one code point below 256, so the only decimal digits are \<open>0\<close> to \<open>9\<close>. JSON
  numbers with a fraction are left out: no function of the module computes with numbers.
\<close>

datatype json =
    JNull
  | JBool bool
  | JNum int
  | JStr string
  | JArr "json list"
  | JObj "(string \<times> json) list"

text \<open>
  An exception is a class and the text that \<^verbatim>\<open>str(e)\<close> gives. Every class below derives
  from Python's \<^verbatim>\<open>Exception\<close>; \<open>GenericException\<close> is \<^verbatim>\<open>Exception\<close> itself.
\<close>

datatype exn_class =
    GenericException
  | IndexError
  | KeyError
  | TypeError
  | AttributeError
  | ValueError
  | ConnectionError
  | URLError
  | FileNotFoundError
  | FileExistsError
  | IsADirectoryError
  | SameFileError
  | PermissionError

datatype pyerr = PyErr exn_class string

fun py_str_exn :: "pyerr \<Rightarrow> string" where
  "py_str_exn (PyErr c m) = m"

definition sbind :: "pyerr + 'a \<Rightarrow> ('a \<Rightarrow> pyerr + 'b) \<Rightarrow> pyerr + 'b" where
  "sbind m f = (case m of Inl e \<Rightarrow> Inl e | Inr x \<Rightarrow> f x)"

subsection \<open>Subscripting, iteration, \<^verbatim>\<open>str\<close>\<close>

text \<open>\<^verbatim>\<open>v[k]\<close> with a string key \<open>k\<close>.\<close>

fun getitem_key :: "json \<Rightarrow> string \<Rightarrow> pyerr + json" where
  "getitem_key (JObj kvs) k =
     (case map_of kvs k of
        Some v \<Rightarrow> Inr v
      | None \<Rightarrow> Inl (PyErr KeyError ([CHR 0x27] @ k @ [CHR 0x27])))"
| "getitem_key (JArr xs) k =
     Inl (PyErr TypeError ''list indices must be integers or slices, not str'')"
| "getitem_key (JStr s) k = Inl (PyErr TypeError ''string indices must be integers'')"
| "getitem_key v k = Inl (PyErr TypeError ''object is not subscriptable'')"

text \<open>The decimal text of an integer, as \<^verbatim>\<open>str(n)\<close> gives it.\<close>

definition digit_char :: "nat \<Rightarrow> char" where
  "digit_char d = ''0123456789'' ! (d mod 10)"

function str_nat :: "nat \<Rightarrow> string" where
  "str_nat n = (if n < 10 then [digit_char n] else str_nat (n div 10) @ [digit_char (n mod 10)])"
  by pat_completeness auto
termination
  by (relation "measure (\<lambda>n. n)") auto

declare str_nat.simps [simp del]

definition str_int :: "int \<Rightarrow> string" where
  "str_int i = (if i < 0 then CHR ''-'' # str_nat (nat (- i)) else str_nat (nat i))"

text \<open>\<^verbatim>\<open>v[i]\<close> with the literal index \<open>0\<close> or \<open>1\<close>.\<close>

fun getitem_idx :: "json \<Rightarrow> nat \<Rightarrow> pyerr + json" where
  "getitem_idx (JArr xs) i =
     (if i < length xs then Inr (xs ! i) else Inl (PyErr IndexError ''list index out of range''))"
| "getitem_idx (JStr s) i =
     (if i < length s then Inr (JStr [s ! i])
      else Inl (PyErr IndexError ''string index out of range''))"
| "getitem_idx (JObj kvs) i = Inl (PyErr KeyError (str_nat i))"
| "getitem_idx v i = Inl (PyErr TypeError ''object is not subscriptable'')"

text \<open>Indexing a list of strings (the result of \<^verbatim>\<open>rsplit\<close>).\<close>

definition list_index :: "string list \<Rightarrow> nat \<Rightarrow> pyerr + string" where
  "list_index xs i =
     (if i < length xs then Inr (xs ! i) else Inl (PyErr IndexError ''list index out of range''))"

text \<open>
  \<^verbatim>\<open>for file in v\<close>: a list gives its elements, a dict its keys, a string its
  characters; nothing else can be iterated.
\<close>

fun py_iter :: "json \<Rightarrow> pyerr + json list" where
  "py_iter (JArr xs) = Inr xs"
| "py_iter (JObj kvs) = Inr (map (\<lambda>kv. JStr (fst kv)) kvs)"
| "py_iter (JStr s) = Inr (map (\<lambda>c. JStr [c]) s)"
| "py_iter v = Inl (PyErr TypeError ''object is not iterable'')"

subsection \<open>\<^verbatim>\<open>str.rsplit(sep, 1)\<close>\<close>

text \<open>
  The string is scanned from its right end. At the first separator met, the result is
  the two pieces around it; a string without the separator comes back whole, as a list
  of one element.
\<close>

fun rsplit_scan :: "char \<Rightarrow> string \<Rightarrow> string \<Rightarrow> string list" where
  "rsplit_scan sep [] tail = [tail]"
| "rsplit_scan sep (c # front) tail =
     (if c = sep then [rev front, tail] else rsplit_scan sep front (c # tail))"

definition rsplit1 :: "string \<Rightarrow> char \<Rightarrow> string list" where
  "rsplit1 s sep = rsplit_scan sep (rev s) []"

subsection \<open>\<^verbatim>\<open>re.search(r'\d{4}/\d{2}/PXD\d*', s)\<close>\<close>

text \<open>
  The pattern is a sequence of pieces without alternatives, so matching at one position
  never backtracks: each piece consumes a prefix of what is left. \<^verbatim>\<open>\d*\<close> is greedy.
  \<^verbatim>\<open>re.search\<close> tries the positions from the left and gives the first match, or
  \<^verbatim>\<open>None\<close>.
\<close>

definition is_digit :: "char \<Rightarrow> bool" where
  "is_digit c = (c \<in> set ''0123456789'')"

fun eat_digits :: "nat \<Rightarrow> string \<Rightarrow> string option" where
  "eat_digits 0 s = Some s"
| "eat_digits (Suc n) [] = None"
| "eat_digits (Suc n) (c # cs) = (if is_digit c then eat_digits n cs else None)"

fun eat_literal :: "string \<Rightarrow> string \<Rightarrow> string option" where
  "eat_literal [] s = Some s"
| "eat_literal (l # ls) [] = None"
| "eat_literal (l # ls) (c # cs) = (if c = l then eat_literal ls cs else None)"

definition match_at :: "string \<Rightarrow> string option" where
  "match_at s =
     (case eat_digits 4 s of None \<Rightarrow> None | Some s1 \<Rightarrow>
      case eat_literal ''/'' s1 of None \<Rightarrow> None | Some s2 \<Rightarrow>
      case eat_digits 2 s2 of None \<Rightarrow> None | Some s3 \<Rightarrow>
      case eat_literal ''/PXD'' s3 of None \<Rightarrow> None | Some s4 \<Rightarrow>
        Some (take (length s - length (dropWhile is_digit s4)) s))"

fun re_search :: "string \<Rightarrow> string option" where
  "re_search [] = match_at []"
| "re_search (c # cs) =
     (case match_at (c # cs) of Some m \<Rightarrow> Some m | None \<Rightarrow> re_search cs)"

section \<open>The world outside the module\<close>

text \<open>
  Everything the module does to its surroundings is an entry of a trace, in the order
  in which the calls are made.
\<close>

datatype event =
    ApiGet string "(string \<times> string) list"
  | Retrieve string string
  | Copy2 string string
  | Mkdir string
  | GlobCall string
  | LogDebug string
  | LogError string
  | LogException string

text \<open>
  What \<^verbatim>\<open>response.json()\<close> gives: the parsed body, or the exception of the parser.
\<close>

datatype response = Response "pyerr + json"

fun response_json :: "response \<Rightarrow> pyerr + json" where
  "response_json (Response r) = r"

text \<open>
  The world holds the trace, the local files (path to content) and directories, and the
  answers of what lies outside the module:
  \<^item> \<open>api_reply\<close>: \<^verbatim>\<open>Util.get_api_call(url, headers)\<close>. The module
    \<^verbatim>\<open>util/api_handling.py\<close> is not among the sources, so the call is a parameter: for
    a URL and headers it gives a response or raises;
  \<^item> \<open>remote\<close>: the content behind a URL, or the exception of the transfer;
  \<^item> \<open>fs_glob\<close>: the paths \<^verbatim>\<open>glob.glob(pattern)\<close> gives, in the file system's order;
  \<^item> \<open>mkdir_fault\<close>: why \<^verbatim>\<open>os.mkdir\<close> of a path that does not exist yet fails
    (a missing parent, no permission), if it does.
  Paths are compared as the strings the module builds. The answers do not change while
  the module runs. A file can be written where its directory, the path up to its last
  \<open>/\<close>, is a directory of the world; a path without \<open>/\<close> lies in the working directory,
  which is always there. Other faults of the operating system (no permission to write, a
  full disk, a transfer cut short) are left out.
\<close>

record world =
  trace :: "event list"
  api_reply :: "string \<Rightarrow> (string \<times> string) list \<Rightarrow> pyerr + response"
  remote :: "string \<Rightarrow> pyerr + string"
  fs_files :: "string \<rightharpoonup> string"
  fs_dirs :: "string set"
  fs_glob :: "string \<Rightarrow> string list"
  mkdir_fault :: "string \<Rightarrow> pyerr option"

definition emit :: "event \<Rightarrow> world \<Rightarrow> world" where
  "emit e w = w\<lparr>trace := trace w @ [e]\<rparr>"

definition logging_debug :: "string \<Rightarrow> world \<Rightarrow> world" where
  "logging_debug msg w = emit (LogDebug msg) w"

definition logging_error :: "string \<Rightarrow> world \<Rightarrow> world" where
  "logging_error msg w = emit (LogError msg) w"

text \<open>
  \<^verbatim>\<open>logging.exception\<close> logs at level ERROR and adds the exception being handled;
  called outside a handler, as the module does, it still only logs.
\<close>

definition logging_exception :: "string \<Rightarrow> world \<Rightarrow> world" where
  "logging_exception msg w = emit (LogException msg) w"

definition get_api_call ::
  "string \<Rightarrow> (string \<times> string) list \<Rightarrow> world \<Rightarrow> (pyerr + response) \<times> world" where
  "get_api_call url headers w = (api_reply w url headers, emit (ApiGet url headers) w)"

definition os_path_isdir :: "string \<Rightarrow> world \<Rightarrow> bool" where
  "os_path_isdir path w = (path \<in> fs_dirs w)"

definition os_mkdir :: "string \<Rightarrow> world \<Rightarrow> (pyerr + unit) \<times> world" where
  "os_mkdir path w =
     (let w1 = emit (Mkdir path) w in
      if path \<in> fs_dirs w \<or> path \<in> dom (fs_files w)
      then (Inl (PyErr FileExistsError path), w1)
      else (case mkdir_fault w path of
              Some e \<Rightarrow> (Inl e, w1)
            | None \<Rightarrow> (Inr (), w1\<lparr>fs_dirs := insert path (fs_dirs w1)\<rparr>)))"

text \<open>
  \<^verbatim>\<open>open(path, 'wb')\<close>: the exception it raises, if any. A directory cannot be opened
  for writing, nor can a path that ends with \<open>/\<close>; a file cannot be created in a directory
  that is not there.
\<close>

definition dirname_of :: "string \<Rightarrow> string" where
  "dirname_of path = rev (dropWhile (\<lambda>c. c \<noteq> CHR ''/'') (rev path))"

definition parent_exists :: "string \<Rightarrow> world \<Rightarrow> bool" where
  "parent_exists path w = (dirname_of path = [] \<or> dirname_of path \<in> fs_dirs w)"

definition open_for_writing :: "string \<Rightarrow> world \<Rightarrow> pyerr option" where
  "open_for_writing path w =
     (if path = [] then Some (PyErr FileNotFoundError path)
      else if path \<in> fs_dirs w then Some (PyErr IsADirectoryError path)
      else if last path = CHR ''/''
      then (if parent_exists (butlast path) w then Some (PyErr IsADirectoryError path)
            else Some (PyErr FileNotFoundError path))
      else if parent_exists path w then None
      else Some (PyErr FileNotFoundError path))"

text \<open>
  \<^verbatim>\<open>urllib.request.urlretrieve(url, filename)\<close> opens the URL first and then the local
  file, so a failing transfer is met before a destination that cannot be written.
\<close>

definition urlretrieve :: "string \<Rightarrow> string \<Rightarrow> world \<Rightarrow> (pyerr + unit) \<times> world" where
  "urlretrieve url filename w =
     (let w1 = emit (Retrieve url filename) w in
      case remote w url of
        Inl e \<Rightarrow> (Inl e, w1)
      | Inr content \<Rightarrow>
          (case open_for_writing filename w of
             Some e \<Rightarrow> (Inl e, w1)
           | None \<Rightarrow> (Inr (), w1\<lparr>fs_files := (fs_files w1)(filename \<mapsto> content)\<rparr>)))"

text \<open>
  \<^verbatim>\<open>shutil.copy2(src, dst)\<close>: a destination that is a directory stands for the file of
  the source's name inside it; copying a file onto itself is refused; then the source is
  opened for reading and the destination for writing.
\<close>

definition os_path_basename :: "string \<Rightarrow> string" where
  "os_path_basename path = last (rsplit1 path (CHR ''/''))"

definition os_path_join :: "string \<Rightarrow> string \<Rightarrow> string" where
  "os_path_join a b = (if a = [] \<or> last a = CHR ''/'' then a @ b else a @ ''/'' @ b)"

definition shutil_copy2 :: "string \<Rightarrow> string \<Rightarrow> world \<Rightarrow> (pyerr + unit) \<times> world" where
  "shutil_copy2 src dst w =
     (let w1 = emit (Copy2 src dst) w;
          target = (if os_path_isdir dst w then os_path_join dst (os_path_basename src) else dst)
      in if src = target \<and> fs_files w src \<noteq> None then (Inl (PyErr SameFileError src), w1)
         else if src \<in> fs_dirs w then (Inl (PyErr IsADirectoryError src), w1)
         else (case fs_files w src of
                 None \<Rightarrow> (Inl (PyErr FileNotFoundError src), w1)
               | Some content \<Rightarrow>
                   (case open_for_writing target w of
                      Some e \<Rightarrow> (Inl e, w1)
                    | None \<Rightarrow> (Inr (), w1\<lparr>fs_files := (fs_files w1)(target \<mapsto> content)\<rparr>))))"

definition glob_glob :: "string \<Rightarrow> world \<Rightarrow> string list \<times> world" where
  "glob_glob pattern w = (fs_glob w pattern, emit (GlobCall pattern) w)"

text \<open>A \<^verbatim>\<open>for\<close> loop whose body may raise: the first exception ends the loop.\<close>

fun for_each ::
  "('a \<Rightarrow> world \<Rightarrow> (pyerr + unit) \<times> world) \<Rightarrow> 'a list \<Rightarrow> world \<Rightarrow> (pyerr + unit) \<times> world" where
  "for_each body [] w = (Inr (), w)"
| "for_each body (x # xs) w =
     (case body x w of
        (Inl e, w1) \<Rightarrow> (Inl e, w1)
      | (Inr u, w1) \<Rightarrow> for_each body xs w1)"

section \<open>The class \<^verbatim>\<open>Files\<close>\<close>

definition api_base_url :: string where
  "api_base_url = ''https://www.ebi.ac.uk/pride/ws/archive/v2/''"

definition accept_json :: "(string \<times> string) list" where
  "accept_json = [(''Accept'', ''application/JSON'')]"

definition get_all_paged_files ::
  "string \<Rightarrow> int \<Rightarrow> int \<Rightarrow> string \<Rightarrow> string \<Rightarrow> world \<Rightarrow> (pyerr + json) \<times> world" where
  "get_all_paged_files query_filter page_size page sort_direction sort_conditions w =
     (let request_url = api_base_url @ ''files?'';
          request_url = (if query_filter \<noteq> []
                         then request_url @ ''filter='' @ query_filter @ ''&''
                         else request_url);
          request_url = request_url @ ''pageSize='' @ str_int page_size @ ''&page='' @ str_int page
                          @ ''&sortDirection='' @ sort_direction
                          @ ''&sortConditions='' @ sort_conditions;
          headers = accept_json
      in case get_api_call request_url headers w of
           (Inl e, w1) \<Rightarrow> (Inl e, w1)
         | (Inr response, w1) \<Rightarrow> (response_json response, w1))"

definition get_all_raw_file_list :: "string \<Rightarrow> world \<Rightarrow> (pyerr + json) \<times> world" where
  "get_all_raw_file_list project_accession w =
     (let request_url = api_base_url @ ''files/byProject?accession='' @ project_accession
                          @ '',fileCategory.value==RAW'';
          headers = accept_json
      in case get_api_call request_url headers w of
           (Inl e, w1) \<Rightarrow> (Inl e, w1)
         | (Inr response, w1) \<Rightarrow> (response_json response, w1))"

text \<open>\<^verbatim>\<open>file['publicFileLocations'][i][field]\<close>.\<close>

definition location_field :: "json \<Rightarrow> nat \<Rightarrow> string \<Rightarrow> pyerr + json" where
  "location_field file i field =
     sbind (getitem_key file ''publicFileLocations'') (\<lambda>locations.
     sbind (getitem_idx locations i) (\<lambda>location.
     getitem_key location field))"

text \<open>Lines 84 to 87: the choice of the location to download from.\<close>

definition select_ftp_filepath :: "json \<Rightarrow> pyerr + json" where
  "select_ftp_filepath file =
     sbind (location_field file 0 ''name'') (\<lambda>name.
       if name = JStr ''FTP Protocol''
       then location_field file 0 ''value''
       else location_field file 1 ''value'')"

text \<open>
  The body of the loop of \<^verbatim>\<open>download_files_from_ftp\<close>. The operands of the two
  concatenations are evaluated from left to right, so a missing or non-string accession
  is met before the index into the split path.
\<close>

definition download_file :: "string \<Rightarrow> json \<Rightarrow> world \<Rightarrow> (pyerr + unit) \<times> world" where
  "download_file output_folder file w =
     (case select_ftp_filepath file of
        Inl e \<Rightarrow> (Inl e, w)
      | Inr (JStr ftp_filepath) \<Rightarrow>
          (let w1 = logging_debug (''ftp_filepath:'' @ ftp_filepath) w;
               public_filepath_part = rsplit1 ftp_filepath (CHR ''/'')
           in case getitem_key file ''accession'' of
                Inl e \<Rightarrow> (Inl e, w1)
              | Inr (JStr accession) \<Rightarrow>
                  (case list_index public_filepath_part 1 of
                     Inl e \<Rightarrow> (Inl e, w1)
                   | Inr new_file_path \<Rightarrow>
                       urlretrieve ftp_filepath (output_folder @ new_file_path)
                         (logging_debug (accession @ '' -> '' @ new_file_path) w1))
              | Inr other \<Rightarrow> (Inl (PyErr TypeError ''unsupported operand type(s) for +''), w1))
      | Inr other \<Rightarrow> (Inl (PyErr TypeError ''can only concatenate str to str''), w))"

definition download_files_from_ftp :: "json \<Rightarrow> string \<Rightarrow> world \<Rightarrow> (pyerr + unit) \<times> world" where
  "download_files_from_ftp file_list_json output_folder w =
     (case py_iter file_list_json of
        Inl e \<Rightarrow> (Inl e, w)
      | Inr files \<Rightarrow> for_each (download_file output_folder) files w)"

definition download_raw_files_from_ftp :: "string \<Rightarrow> string \<Rightarrow> world \<Rightarrow> (pyerr + unit) \<times> world" where
  "download_raw_files_from_ftp accession output_folder w =
     (case (if \<not> os_path_isdir output_folder w then os_mkdir output_folder w else (Inr (), w)) of
        (Inl e, w1) \<Rightarrow> (Inl e, w1)
      | (Inr u, w1) \<Rightarrow>
          (case get_all_raw_file_list accession w1 of
             (Inl e, w2) \<Rightarrow> (Inl e, w2)
           | (Inr response_body, w2) \<Rightarrow> download_files_from_ftp response_body output_folder w2))"

definition get_submitted_file_path_prefix :: "string \<Rightarrow> world \<Rightarrow> (pyerr + string) \<times> world" where
  "get_submitted_file_path_prefix accession w =
     (case get_all_raw_file_list accession w of
        (Inl e, w1) \<Rightarrow> (Inl e, w1)
      | (Inr results, w1) \<Rightarrow>
          (case sbind (getitem_idx results 0) (\<lambda>first. location_field first 0 ''value'') of
             Inl e \<Rightarrow> (Inl e, w1)
           | Inr (JStr first_file) \<Rightarrow>
               (case re_search first_file of
                  None \<Rightarrow>
                    (Inl (PyErr AttributeError ''NoneType object has no attribute group''), w1)
                | Some path_fragment \<Rightarrow> (Inr path_fragment, w1))
           | Inr other \<Rightarrow> (Inl (PyErr TypeError ''expected string or bytes-like object''), w1)))"

text \<open>The loop of \<^verbatim>\<open>get_files_from_dir\<close>, with the list it appends to.\<close>

fun collect_filenames ::
  "string list \<Rightarrow> string list \<Rightarrow> world \<Rightarrow> (pyerr + string list) \<times> world" where
  "collect_filenames [] file_list_from_dir w = (Inr file_list_from_dir, w)"
| "collect_filenames (file # rest) file_list_from_dir w =
     (let w1 = logging_debug (''found file: '' @ file) w
      in case list_index (rsplit1 file (CHR ''/'')) 1 of
           Inl e \<Rightarrow> (Inl e, w1)
         | Inr filename \<Rightarrow> collect_filenames rest (file_list_from_dir @ [filename]) w1)"

definition get_files_from_dir :: "string \<Rightarrow> string \<Rightarrow> world \<Rightarrow> (pyerr + string list) \<times> world" where
  "get_files_from_dir location regex w =
     (case glob_glob (location @ regex) w of
        (paths, w1) \<Rightarrow> collect_filenames paths [] w1)"

text \<open>The body of the loop of \<^verbatim>\<open>copy_from_dir\<close>.\<close>

definition copy_file :: "string \<Rightarrow> string list \<Rightarrow> json \<Rightarrow> world \<Rightarrow> (pyerr + unit) \<times> world" where
  "copy_file complete_source_dir file_list_from_dir file w =
     (case location_field file 0 ''value'' of
        Inl e \<Rightarrow> (Inl e, w)
      | Inr (JStr ftp_filepath) \<Rightarrow>
          (case list_index (rsplit1 ftp_filepath (CHR ''/'')) 1 of
             Inl e \<Rightarrow> (Inl e, w)
           | Inr file_name_from_ftp \<Rightarrow>
               if file_name_from_ftp \<in> set file_list_from_dir
               then (let source_file = complete_source_dir @ file_name_from_ftp
                     in case getitem_key file ''accession'' of
                          Inl e \<Rightarrow> (Inl e, w)
                        | Inr (JStr accession) \<Rightarrow>
                            shutil_copy2 source_file (accession @ ''-'' @ file_name_from_ftp) w
                        | Inr other \<Rightarrow>
                            (Inl (PyErr TypeError ''unsupported operand type(s) for +''), w))
               else (Inr (),
                     logging_error (file_name_from_ftp @ '' not found in '' @ complete_source_dir) w))
      | Inr other \<Rightarrow> (Inl (PyErr AttributeError ''object has no attribute rsplit''), w))"

definition copy_from_dir ::
  "string \<Rightarrow> string list \<Rightarrow> json \<Rightarrow> world \<Rightarrow> (pyerr + unit) \<times> world" where
  "copy_from_dir complete_source_dir file_list_from_dir file_list_json w =
     (case py_iter file_list_json of
        Inl e \<Rightarrow> (Inl e, w)
      | Inr files \<Rightarrow> for_each (copy_file complete_source_dir file_list_from_dir) files w)"

definition copy_raw_files_from_dir :: "string \<Rightarrow> string \<Rightarrow> world \<Rightarrow> (pyerr + unit) \<times> world" where
  "copy_raw_files_from_dir accession source_base_directory w =
     (case get_submitted_file_path_prefix accession w of
        (Inl e, w1) \<Rightarrow> (Inl e, w1)
      | (Inr path_fragment, w1) \<Rightarrow>
          (let complete_source_dir = source_base_directory @ ''/'' @ path_fragment @ ''/submitted/'';
               w2 = (if \<not> os_path_isdir complete_source_dir w1
                     then logging_exception (''Folder does not exists! '' @ complete_source_dir) w1
                     else w1)
           in case get_files_from_dir complete_source_dir ''*.raw'' w2 of
                (Inl e, w3) \<Rightarrow> (Inl e, w3)
              | (Inr file_list_from_dir, w3) \<Rightarrow>
                  (case get_all_raw_file_list accession w3 of
                     (Inl e, w4) \<Rightarrow> (Inl e, w4)
                   | (Inr response_body, w4) \<Rightarrow>
                       copy_from_dir complete_source_dir file_list_from_dir response_body w4)))"

text \<open>
  \<^verbatim>\<open>get_file_from_api\<close>: the handler \<^verbatim>\<open>except Exception as e\<close> catches what the call
  or the parser raises and raises \<^verbatim>\<open>Exception("File not found" + str(e))\<close>.
\<close>

definition get_file_from_api :: "string \<Rightarrow> string \<Rightarrow> world \<Rightarrow> (pyerr + json) \<times> world" where
  "get_file_from_api accession file_name w =
     (let request_url = api_base_url @ ''files/byProject?accession='' @ accession
                          @ '',fileName=='' @ file_name;
          headers = accept_json
      in case get_api_call request_url headers w of
           (Inl e, w1) \<Rightarrow> (Inl (PyErr GenericException (''File not found'' @ py_str_exn e)), w1)
         | (Inr response, w1) \<Rightarrow>
             (case response_json response of
                Inl e \<Rightarrow> (Inl (PyErr GenericException (''File not found'' @ py_str_exn e)), w1)
              | Inr body \<Rightarrow> (Inr body, w1)))"

definition download_file_from_ftp_by_name ::
  "string \<Rightarrow> string \<Rightarrow> string \<Rightarrow> world \<Rightarrow> (pyerr + unit) \<times> world" where
  "download_file_from_ftp_by_name accession file_name output_folder w =
     (case (if \<not> os_path_isdir output_folder w then os_mkdir output_folder w else (Inr (), w)) of
        (Inl e, w1) \<Rightarrow> (Inl e, w1)
      | (Inr u, w1) \<Rightarrow>
          (case get_file_from_api accession file_name w1 of
             (Inl e, w2) \<Rightarrow> (Inl e, w2)
           | (Inr response, w2) \<Rightarrow> download_files_from_ftp response output_folder w2))"

definition copy_file_from_dir_by_name ::
  "string \<Rightarrow> string \<Rightarrow> string \<Rightarrow> world \<Rightarrow> (pyerr + unit) \<times> world" where
  "copy_file_from_dir_by_name accession file_name input_folder w =
     (case get_submitted_file_path_prefix accession w of
        (Inl e, w1) \<Rightarrow> (Inl e, w1)
      | (Inr path_fragment, w1) \<Rightarrow>
          (let complete_source_dir = input_folder @ ''/'' @ path_fragment @ ''/submitted/'';
               w2 = (if \<not> os_path_isdir complete_source_dir w1
                     then logging_exception (''Folder does not exists! '' @ complete_source_dir) w1
                     else w1)
           in case get_files_from_dir complete_source_dir file_name w2 of
                (Inl e, w3) \<Rightarrow> (Inl e, w3)
              | (Inr file_list_from_dir, w3) \<Rightarrow>
                  (case get_file_from_api accession file_name w3 of
                     (Inl e, w4) \<Rightarrow> (Inl e, w4)
                   | (Inr response_body, w4) \<Rightarrow>
                       copy_from_dir complete_source_dir file_list_from_dir response_body w4)))"

section \<open>The specification's view\<close>

subsection \<open>File records\<close>

text \<open>
  The data model of the specification: a file record has an accession and an ordered
  sequence of locations, a location a name tag and a value (a URI). \<open>decode_record\<close>
  reads such a record off a parsed JSON object; other keys of the object are ignored.
\<close>

record location =
  loc_name :: string
  loc_value :: string

record file_record =
  accession :: string
  publicFileLocations :: "location list"

definition str_field :: "(string \<times> json) list \<Rightarrow> string \<Rightarrow> string option" where
  "str_field kvs k = (case map_of kvs k of Some (JStr s) \<Rightarrow> Some s | _ \<Rightarrow> None)"

fun decode_location :: "json \<Rightarrow> location option" where
  "decode_location (JObj kvs) =
     (case str_field kvs ''name'' of
        None \<Rightarrow> None
      | Some n \<Rightarrow>
          (case str_field kvs ''value'' of
             None \<Rightarrow> None
           | Some v \<Rightarrow> Some \<lparr>loc_name = n, loc_value = v\<rparr>))"
| "decode_location v = None"

fun decode_locations :: "json list \<Rightarrow> location list option" where
  "decode_locations [] = Some []"
| "decode_locations (x # xs) =
     (case decode_location x of
        None \<Rightarrow> None
      | Some l \<Rightarrow> (case decode_locations xs of None \<Rightarrow> None | Some ls \<Rightarrow> Some (l # ls)))"

fun decode_record :: "json \<Rightarrow> file_record option" where
  "decode_record (JObj kvs) =
     (case str_field kvs ''accession'' of
        None \<Rightarrow> None
      | Some a \<Rightarrow>
          (case map_of kvs ''publicFileLocations'' of
             Some (JArr ls) \<Rightarrow>
               (case decode_locations ls of
                  None \<Rightarrow> None
                | Some locs \<Rightarrow> Some \<lparr>accession = a, publicFileLocations = locs\<rparr>)
           | _ \<Rightarrow> None))"
| "decode_record v = None"

text \<open>The JSON object of a record with exactly the two keys the module reads.\<close>

definition json_location :: "string \<Rightarrow> string \<Rightarrow> json" where
  "json_location n v = JObj [(''name'', JStr n), (''value'', JStr v)]"

definition json_file :: "string \<Rightarrow> json list \<Rightarrow> json" where
  "json_file a locs = JObj [(''accession'', JStr a), (''publicFileLocations'', JArr locs)]"

subsection \<open>Names of files\<close>

text \<open>The substring after the last \<open>/\<close> of a path.\<close>

definition after_last_slash :: "string \<Rightarrow> string" where
  "after_last_slash u = rev (takeWhile (\<lambda>c. c \<noteq> CHR ''/'') (rev u))"

text \<open>
  The FTP URI of a record: the value of location 0 when its name tag is
  \<open>FTP Protocol\<close>, the value of location 1 otherwise. \<open>locations_in_range\<close> says that
  the location this choice reads exists.
\<close>

definition ftp_uri :: "file_record \<Rightarrow> string" where
  "ftp_uri r =
     (let locs = publicFileLocations r
      in if loc_name (locs ! 0) = ''FTP Protocol'' then loc_value (locs ! 0)
         else loc_value (locs ! 1))"

definition locations_in_range :: "file_record \<Rightarrow> bool" where
  "locations_in_range r =
     (let locs = publicFileLocations r
      in locs \<noteq> [] \<and> (loc_name (locs ! 0) = ''FTP Protocol'' \<or> 2 \<le> length locs))"

definition downloadable :: "file_record \<Rightarrow> bool" where
  "downloadable r = (locations_in_range r \<and> CHR ''/'' \<in> set (ftp_uri r))"

definition first_value :: "file_record \<Rightarrow> string" where
  "first_value r = loc_value (publicFileLocations r ! 0)"

definition copyable :: "file_record \<Rightarrow> bool" where
  "copyable r = (publicFileLocations r \<noteq> [] \<and> CHR ''/'' \<in> set (first_value r))"

subsection \<open>Path fragments\<close>

text \<open>
  A path fragment: a year of four digits, \<open>/\<close>, a month of two digits, \<open>/\<close>, and a
  token made of \<open>PXD\<close> and digits.
\<close>

definition is_path_fragment :: "string \<Rightarrow> bool" where
  "is_path_fragment r =
     (let year = take 4 r; month = take 2 (drop 5 r); token = drop 8 r
      in length year = 4 \<and> list_all is_digit year \<and> take 1 (drop 4 r) = ''/''
         \<and> length month = 2 \<and> list_all is_digit month \<and> take 1 (drop 7 r) = ''/''
         \<and> take 3 token = ''PXD'' \<and> list_all is_digit (drop 3 token))"

definition fragment_parts :: "string \<Rightarrow> string \<Rightarrow> string \<Rightarrow> string" where
  "fragment_parts y m ds = y @ ''/'' @ m @ ''/PXD'' @ ds"

subsection \<open>Reading the trace\<close>

fun retrieval_of :: "event \<Rightarrow> (string \<times> string) list" where
  "retrieval_of (Retrieve url dst) = [(url, dst)]"
| "retrieval_of e = []"

definition retrievals :: "event list \<Rightarrow> (string \<times> string) list" where
  "retrievals evs = concat (map retrieval_of evs)"

fun copy_of :: "event \<Rightarrow> (string \<times> string) list" where
  "copy_of (Copy2 src dst) = [(src, dst)]"
| "copy_of e = []"

definition copies :: "event list \<Rightarrow> (string \<times> string) list" where
  "copies evs = concat (map copy_of evs)"

fun mkdir_of :: "event \<Rightarrow> string list" where
  "mkdir_of (Mkdir path) = [path]"
| "mkdir_of e = []"

definition mkdirs :: "event list \<Rightarrow> string list" where
  "mkdirs evs = concat (map mkdir_of evs)"

definition succeeds :: "pyerr + 'a \<Rightarrow> bool" where
  "succeeds x = (case x of Inl e \<Rightarrow> False | Inr v \<Rightarrow> True)"

text \<open>The transfer a record asks for, and whether the world lets it through.\<close>

definition expected_retrieval :: "string \<Rightarrow> file_record \<Rightarrow> string \<times> string" where
  "expected_retrieval output_folder r =
     (ftp_uri r, output_folder @ after_last_slash (ftp_uri r))"





text \<open>What the copy loop does for one record: a copy, or an error line in the log.\<close>

definition copy_action :: "string \<Rightarrow> string list \<Rightarrow> file_record \<Rightarrow> event" where
  "copy_action sourceDir listing r =
     (let filename = after_last_slash (first_value r)
      in if filename \<in> set listing
         then Copy2 (sourceDir @ filename) (accession r @ ''-'' @ filename)
         else LogError (filename @ '' not found in '' @ sourceDir))"




definition raw_list_url :: "string \<Rightarrow> string" where
  "raw_list_url acc =
     ''https://www.ebi.ac.uk/pride/ws/archive/v2/files/byProject?accession='' @ acc
       @ '',fileCategory.value==RAW''"

definition file_by_name_url :: "string \<Rightarrow> string \<Rightarrow> string" where
  "file_by_name_url acc file_name =
     ''https://www.ebi.ac.uk/pride/ws/archive/v2/files/byProject?accession='' @ acc
       @ '',fileName=='' @ file_name"

subsection \<open>Worlds and records to run the module on\<close>

definition offline_world :: world where
  "offline_world =
     \<lparr>trace = [],
      api_reply = (\<lambda>url headers. Inl (PyErr ConnectionError ''connection refused'')),
      remote = (\<lambda>url. Inl (PyErr URLError ''timed out'')),
      fs_files = Map.empty,
      fs_dirs = {},
      fs_glob = (\<lambda>pattern. []),
      mkdir_fault = (\<lambda>path. None)\<rparr>"

text \<open>A world whose API answers every request with the same parsed body.\<close>

definition archive_world :: "json \<Rightarrow> world" where
  "archive_world body =
     offline_world\<lparr>api_reply := (\<lambda>url headers. Inr (Response (Inr body))),
                   remote := (\<lambda>url. Inr (''content of '' @ url))\<rparr>"

definition archive_file :: json where
  "archive_file =
     json_file ''PXD008644''
       [json_location ''FTP Protocol''
          ''ftp://host/pride/data/archive/2018/10/PXD008644/7550GI_Y.raw'',
        json_location ''Aspera Protocol''
          ''prd_ascp@fasp.host:pride/data/archive/2018/10/PXD008644/7550GI_Y.raw'']"

definition stray_file :: json where
  "stray_file = json_file ''PXD000001'' [json_location ''FTP Protocol'' ''ftp://host/file.raw'']"

text \<open>The URL of a paged query, and a world whose API answers with a body that does not parse.\<close>

definition paged_files_url :: "string \<Rightarrow> int \<Rightarrow> int \<Rightarrow> string \<Rightarrow> string \<Rightarrow> string" where
  "paged_files_url query_filter pageSize page sortDirection sortConditions =
     ''https://www.ebi.ac.uk/pride/ws/archive/v2/files?''
       @ (if query_filter = [] then [] else ''filter='' @ query_filter @ ''&'')
       @ ''pageSize='' @ str_int pageSize @ ''&page='' @ str_int page
       @ ''&sortDirection='' @ sortDirection @ ''&sortConditions='' @ sortConditions"

definition garbled_world :: world where
  "garbled_world =
     offline_world\<lparr>api_reply :=
       (\<lambda>url headers. Inr (Response (Inl (PyErr ValueError ''Expecting value: line 1 column 1''))))\<rparr>"




definition a_file :: json where
  "a_file =
     json_file ''PXD008644''
       [json_location ''FTP Protocol'' ''ftp://host/pride/data/archive/2018/10/PXD008644/a.raw'']"

definition c_file :: json where
  "c_file =
     json_file ''PXD008644''
       [json_location ''FTP Protocol'' ''ftp://host/pride/data/archive/2018/10/PXD008644/c.raw'']"

text \<open>A record whose two locations name the file differently.\<close>

definition mirror_file :: json where
  "mirror_file =
     json_file ''PXD008644''
       [json_location ''Aspera Protocol'' ''prd_ascp@fasp.host:archive/aspera_name.raw'',
        json_location ''FTP Protocol'' ''ftp://host/archive/ftp_name.raw'']"

text \<open>A world in which the output folder \<open>out/\<close> is already there.\<close>

definition ready_world :: world where
  "ready_world = (archive_world (JArr [archive_file]))\<lparr>fs_dirs := {''out/''}\<rparr>"

text \<open>
  What the two download functions do after the step that ensures the output folder
  (lines 72 to 74 and 160 to 161).
\<close>

definition list_then_download :: "string \<Rightarrow> string \<Rightarrow> world \<Rightarrow> (pyerr + unit) \<times> world" where
  "list_then_download acc output_folder w =
     (case get_all_raw_file_list acc w of
        (Inl e, w2) \<Rightarrow> (Inl e, w2)
      | (Inr response_body, w2) \<Rightarrow> download_files_from_ftp response_body output_folder w2)"

definition lookup_then_download ::
  "string \<Rightarrow> string \<Rightarrow> string \<Rightarrow> world \<Rightarrow> (pyerr + unit) \<times> world" where
  "lookup_then_download acc file_name output_folder w =
     (case get_file_from_api acc file_name w of
        (Inl e, w2) \<Rightarrow> (Inl e, w2)
      | (Inr response, w2) \<Rightarrow> download_files_from_ftp response output_folder w2)"

section \<open>Strings\<close>

subsection \<open>Splitting a path at its last separator\<close>

lemma rsplit_scan_found:
  "sep \<notin> set f \<Longrightarrow> rsplit_scan sep (rev f @ sep # rev pre) tail = [pre, f @ tail]"
proof (induction f arbitrary: tail rule: rev_induct)
  case Nil
  then show ?case by simp
next
  case (snoc x xs)
  then have "x \<noteq> sep" and "sep \<notin> set xs" by auto
  with snoc.IH [of "x # tail"] show ?case by simp
qed

lemma rsplit_scan_absent:
  "sep \<notin> set rs \<Longrightarrow> rsplit_scan sep rs tail = [rev rs @ tail]"
  by (induction rs arbitrary: tail) auto

lemma rsplit1_found: "sep \<notin> set f \<Longrightarrow> rsplit1 (pre @ sep # f) sep = [pre, f]"
  using rsplit_scan_found [of sep f pre "[]"] by (simp add: rsplit1_def)

lemma rsplit1_absent: "sep \<notin> set s \<Longrightarrow> rsplit1 s sep = [s]"
  using rsplit_scan_absent [of sep "rev s" "[]"] by (simp add: rsplit1_def)

lemma after_last_slash_split:
  assumes "CHR ''/'' \<in> set u"
  shows "\<exists>pre. u = pre @ CHR ''/'' # after_last_slash u" and "CHR ''/'' \<notin> set (after_last_slash u)"
proof -
  let ?P = "\<lambda>c. c \<noteq> CHR ''/''"
  have "rev u = takeWhile ?P (rev u) @ dropWhile ?P (rev u)" by simp
  moreover have "dropWhile ?P (rev u) \<noteq> []" using assms by (simp add: dropWhile_eq_Nil_conv)
  then have "hd (dropWhile ?P (rev u)) = CHR ''/''" using hd_dropWhile [of ?P "rev u"] by auto
  ultimately obtain t where t: "rev u = takeWhile ?P (rev u) @ CHR ''/'' # t"
    by (metis \<open>dropWhile ?P (rev u) \<noteq> []\<close> list.collapse)
  then have "u = rev t @ CHR ''/'' # after_last_slash u"
    unfolding after_last_slash_def by (metis rev_append rev.simps(2) rev_rev_ident append.assoc append_Cons append_Nil)
  then show "\<exists>pre. u = pre @ CHR ''/'' # after_last_slash u" by blast
  show "CHR ''/'' \<notin> set (after_last_slash u)"
    unfolding after_last_slash_def using set_takeWhileD by fastforce
qed

lemma after_last_slash_unique:
  "u = pre @ CHR ''/'' # f \<Longrightarrow> CHR ''/'' \<notin> set f \<Longrightarrow> after_last_slash u = f"
proof -
  assume u: "u = pre @ CHR ''/'' # f" and f: "CHR ''/'' \<notin> set f"
  have "takeWhile (\<lambda>c. c \<noteq> CHR ''/'') (rev f @ CHR ''/'' # rev pre) = rev f"
    using f by (induction f rule: rev_induct) auto
  then show ?thesis using u by (simp add: after_last_slash_def)
qed

lemma filename_of_path:
  "CHR ''/'' \<in> set u \<Longrightarrow> list_index (rsplit1 u (CHR ''/'')) 1 = Inr (after_last_slash u)"
proof -
  assume "CHR ''/'' \<in> set u"
  then obtain pre where u: "u = pre @ CHR ''/'' # after_last_slash u"
    and n: "CHR ''/'' \<notin> set (after_last_slash u)"
    using after_last_slash_split [of u] by blast
  have "rsplit1 u (CHR ''/'') = [pre, after_last_slash u]"
    using rsplit1_found [OF n, of pre] u by simp
  then show ?thesis by (simp add: list_index_def)
qed

lemma filename_of_path_absent:
  "CHR ''/'' \<notin> set u \<Longrightarrow> list_index (rsplit1 u (CHR ''/'')) 1 = Inl (PyErr IndexError ''list index out of range'')"
  by (simp add: rsplit1_absent list_index_def)

subsection \<open>The pattern of the path fragment\<close>

lemma eat_digits_Some:
  "eat_digits n s = Some t \<Longrightarrow> \<exists>ds. s = ds @ t \<and> length ds = n \<and> list_all is_digit ds"
proof (induction n s rule: eat_digits.induct)
  case (1 s)
  then show ?case by simp
next
  case (2 n)
  then show ?case by simp
next
  case (3 n c cs)
  then have c: "is_digit c" and "eat_digits n cs = Some t" by (auto split: if_splits)
  with 3 obtain ds where "cs = ds @ t" "length ds = n" "list_all is_digit ds" by blast
  with c have "c # cs = (c # ds) @ t \<and> length (c # ds) = Suc n \<and> list_all is_digit (c # ds)"
    by simp
  then show ?case by blast
qed

lemma eat_digits_append:
  "list_all is_digit ds \<Longrightarrow> eat_digits (length ds) (ds @ t) = Some t"
  by (induction ds) auto

lemma eat_literal_Some: "eat_literal l s = Some t \<Longrightarrow> s = l @ t"
  by (induction l s rule: eat_literal.induct) (auto split: if_splits)

lemma eat_literal_append: "eat_literal l (l @ t) = Some t"
  by (induction l) auto

lemma take_length_minus: "t = a @ b \<Longrightarrow> take (length t - length b) t = a"
  by simp

lemma match_at_Some:
  assumes "match_at s = Some r"
  shows "\<exists>y m rest. s = fragment_parts y m rest \<and> r = fragment_parts y m (takeWhile is_digit rest)
           \<and> length y = 4 \<and> list_all is_digit y \<and> length m = 2 \<and> list_all is_digit m"
proof -
  from assms obtain s1 s2 s3 s4 where
    e1: "eat_digits 4 s = Some s1" and e2: "eat_literal ''/'' s1 = Some s2" and
    e3: "eat_digits 2 s2 = Some s3" and e4: "eat_literal ''/PXD'' s3 = Some s4" and
    r: "r = take (length s - length (dropWhile is_digit s4)) s"
    unfolding match_at_def by (auto split: option.splits)
  from eat_digits_Some [OF e1] obtain y where
    y: "s = y @ s1" "length y = 4" "list_all is_digit y" by blast
  from eat_digits_Some [OF e3] obtain m where
    m: "s2 = m @ s3" "length m = 2" "list_all is_digit m" by blast
  have s: "s = fragment_parts y m s4"
    using y(1) m(1) eat_literal_Some [OF e2] eat_literal_Some [OF e4]
    by (simp add: fragment_parts_def)
  have "s = fragment_parts y m (takeWhile is_digit s4) @ dropWhile is_digit s4"
    unfolding s by (simp add: fragment_parts_def)
  from take_length_minus [OF this] have "r = fragment_parts y m (takeWhile is_digit s4)"
    using r by simp
  with s y m show ?thesis by blast
qed

lemma match_at_parts:
  assumes "length y = 4" "list_all is_digit y" "length m = 2" "list_all is_digit m"
  shows "match_at (fragment_parts y m rest) = Some (fragment_parts y m (takeWhile is_digit rest))"
proof -
  let ?s = "fragment_parts y m rest"
  have e1: "eat_digits 4 ?s = Some (''/'' @ m @ ''/PXD'' @ rest)"
    using eat_digits_append [OF assms(2), of "''/'' @ m @ ''/PXD'' @ rest"] assms(1)
    by (simp add: fragment_parts_def)
  have e2: "eat_literal ''/'' (''/'' @ m @ ''/PXD'' @ rest) = Some (m @ ''/PXD'' @ rest)"
    by (rule eat_literal_append)
  have e3: "eat_digits 2 (m @ ''/PXD'' @ rest) = Some (''/PXD'' @ rest)"
    using eat_digits_append [OF assms(4), of "''/PXD'' @ rest"] assms(3) by simp
  have e4: "eat_literal ''/PXD'' (''/PXD'' @ rest) = Some rest"
    by (rule eat_literal_append)
  have "?s = fragment_parts y m (takeWhile is_digit rest) @ dropWhile is_digit rest"
    by (simp add: fragment_parts_def)
  from take_length_minus [OF this]
  have "take (length ?s - length (dropWhile is_digit rest)) ?s
          = fragment_parts y m (takeWhile is_digit rest)" .
  then show ?thesis
    unfolding match_at_def by (simp only: e1 e2 e3 e4 option.case)
qed

lemma is_path_fragment_parts:
  "is_path_fragment r \<longleftrightarrow>
     (\<exists>y m ds. r = fragment_parts y m ds \<and> length y = 4 \<and> list_all is_digit y
                \<and> length m = 2 \<and> list_all is_digit m \<and> list_all is_digit ds)"
proof
  assume f: "is_path_fragment r"
  have d5: "drop 4 r = take 1 (drop 4 r) @ drop 5 r"
    using append_take_drop_id [of 1 "drop 4 r"] by simp
  have d7: "drop 5 r = take 2 (drop 5 r) @ drop 7 r"
    using append_take_drop_id [of 2 "drop 5 r"] by simp
  have d8: "drop 7 r = take 1 (drop 7 r) @ drop 8 r"
    using append_take_drop_id [of 1 "drop 7 r"] by simp
  have d11: "drop 8 r = take 3 (drop 8 r) @ drop 11 r"
    using append_take_drop_id [of 3 "drop 8 r"] by simp
  have "r = take 4 r @ drop 4 r" by simp
  also have "drop 4 r = ''/'' @ take 2 (drop 5 r) @ ''/PXD'' @ drop 11 r"
    using f d5 d7 d8 d11 unfolding is_path_fragment_def Let_def by simp
  finally have "r = fragment_parts (take 4 r) (take 2 (drop 5 r)) (drop 11 r)"
    by (simp add: fragment_parts_def)
  moreover have "length (take 4 r) = 4" "list_all is_digit (take 4 r)"
    "length (take 2 (drop 5 r)) = 2" "list_all is_digit (take 2 (drop 5 r))"
    "list_all is_digit (drop 11 r)"
    using f unfolding is_path_fragment_def Let_def by simp_all
  ultimately show "\<exists>y m ds. r = fragment_parts y m ds \<and> length y = 4 \<and> list_all is_digit y
                \<and> length m = 2 \<and> list_all is_digit m \<and> list_all is_digit ds" by blast
next
  assume "\<exists>y m ds. r = fragment_parts y m ds \<and> length y = 4 \<and> list_all is_digit y
                \<and> length m = 2 \<and> list_all is_digit m \<and> list_all is_digit ds"
  then obtain y m ds where "r = fragment_parts y m ds" "length y = 4" "list_all is_digit y"
    "length m = 2" "list_all is_digit m" "list_all is_digit ds" by blast
  then show "is_path_fragment r"
    unfolding is_path_fragment_def Let_def fragment_parts_def by simp
qed

lemma re_search_Some:
  "re_search s = Some r \<Longrightarrow>
     \<exists>pre post. s = pre @ r @ post \<and> match_at (r @ post) = Some r
        \<and> (\<forall>p q. s = p @ q \<and> length p < length pre \<longrightarrow> match_at q = None)"
proof (induction s)
  case Nil
  then have m: "match_at [] = Some r" by simp
  from match_at_Some [OF m] have False by (auto simp: fragment_parts_def)
  then show ?case ..
next
  case (Cons c cs)
  show ?case
  proof (cases "match_at (c # cs)")
    case (Some m)
    with Cons.prems have m: "match_at (c # cs) = Some r" by simp
    from match_at_Some [OF m] obtain y mo rest where
      s: "c # cs = fragment_parts y mo rest" and
      r: "r = fragment_parts y mo (takeWhile is_digit rest)" by blast
    have "c # cs = [] @ r @ dropWhile is_digit rest"
      unfolding s r by (simp add: fragment_parts_def)
    moreover from this m have "match_at (r @ dropWhile is_digit rest) = Some r" by simp
    ultimately show ?thesis
      by (metis length_greater_0_conv list.size(3) not_less_zero)
  next
    case None
    with Cons.prems have "re_search cs = Some r" by simp
    from Cons.IH [OF this] obtain pre post where
      cs: "cs = pre @ r @ post" and m: "match_at (r @ post) = Some r" and
      first: "\<forall>p q. cs = p @ q \<and> length p < length pre \<longrightarrow> match_at q = None" by blast
    have "\<forall>p q. c # cs = p @ q \<and> length p < length (c # pre) \<longrightarrow> match_at q = None"
    proof (intro allI impI)
      fix p q
      assume a: "c # cs = p @ q \<and> length p < length (c # pre)"
      show "match_at q = None"
      proof (cases p)
        case Nil
        with a None show ?thesis by simp
      next
        case (Cons x p')
        with a have "cs = p' @ q" "length p' < length pre" by auto
        with first show ?thesis by blast
      qed
    qed
    moreover have "c # cs = (c # pre) @ r @ post" using cs by simp
    ultimately show ?thesis using m by blast
  qed
qed

lemma re_search_None_here: "re_search q = None \<Longrightarrow> match_at q = None"
  by (cases q) (auto split: option.splits)

lemma re_search_None:
  "re_search (p @ q) = None \<Longrightarrow> match_at q = None"
proof (induction p)
  case Nil
  then show ?case by (simp add: re_search_None_here)
next
  case (Cons x p')
  then have "re_search (p' @ q) = None" by (auto split: option.splits)
  with Cons.IH show ?case .
qed

lemma fragment_matches:
  assumes "is_path_fragment r"
  shows "match_at (r @ post) \<noteq> None"
proof -
  from assms obtain y m ds where r: "r = fragment_parts y m ds" and
    p: "length y = 4" "list_all is_digit y" "length m = 2" "list_all is_digit m"
    unfolding is_path_fragment_parts by blast
  have "r @ post = fragment_parts y m (ds @ post)" unfolding r fragment_parts_def by simp
  with match_at_parts [OF p, of "ds @ post"] show ?thesis by simp
qed

lemma match_at_is_fragment:
  assumes "match_at s = Some r"
  shows "is_path_fragment r"
    and "\<exists>post. s = r @ post \<and> (post = [] \<or> \<not> is_digit (hd post))"
proof -
  from match_at_Some [OF assms] obtain y m rest where
    s: "s = fragment_parts y m rest" and
    r: "r = fragment_parts y m (takeWhile is_digit rest)" and
    p: "length y = 4" "list_all is_digit y" "length m = 2" "list_all is_digit m" by blast
  have "list_all is_digit (takeWhile is_digit rest)"
    by (auto simp: list_all_iff dest: set_takeWhileD)
  with r p show "is_path_fragment r" unfolding is_path_fragment_parts by blast
  have "s = r @ dropWhile is_digit rest" unfolding s r fragment_parts_def by simp
  moreover have "dropWhile is_digit rest = [] \<or> \<not> is_digit (hd (dropWhile is_digit rest))"
    using hd_dropWhile [of is_digit rest] by blast
  ultimately show "\<exists>post. s = r @ post \<and> (post = [] \<or> \<not> is_digit (hd post))" by blast
qed

lemma re_search_first_fragment:
  assumes "re_search s = Some r"
  shows "\<exists>pre post. s = pre @ r @ post \<and> is_path_fragment r
           \<and> (post = [] \<or> \<not> is_digit (hd post))
           \<and> (\<forall>pre' r' post'. s = pre' @ r' @ post' \<and> is_path_fragment r'
                 \<longrightarrow> length pre \<le> length pre')"
proof -
  from re_search_Some [OF assms] obtain pre post where
    s: "s = pre @ r @ post" and m: "match_at (r @ post) = Some r" and
    first: "\<forall>p q. s = p @ q \<and> length p < length pre \<longrightarrow> match_at q = None" by blast
  from match_at_is_fragment [OF m] have f: "is_path_fragment r"
    and "\<exists>post'. r @ post = r @ post' \<and> (post' = [] \<or> \<not> is_digit (hd post'))" by blast+
  then have g: "post = [] \<or> \<not> is_digit (hd post)" by simp
  have "length pre \<le> length pre'" if "s = pre' @ r' @ post' \<and> is_path_fragment r'"
    for pre' r' post'
  proof (rule ccontr)
    assume "\<not> length pre \<le> length pre'"
    with that first have "match_at (r' @ post') = None" by (metis not_le_imp_less)
    with fragment_matches that show False by blast
  qed
  with s f g show ?thesis by blast
qed

lemma re_search_None_iff:
  "re_search s = None \<longleftrightarrow> \<not> (\<exists>pre r post. s = pre @ r @ post \<and> is_path_fragment r)"
proof
  assume n: "re_search s = None"
  show "\<not> (\<exists>pre r post. s = pre @ r @ post \<and> is_path_fragment r)"
  proof
    assume "\<exists>pre r post. s = pre @ r @ post \<and> is_path_fragment r"
    then obtain pre r post where s: "s = pre @ r @ post" and f: "is_path_fragment r" by blast
    from n have "match_at (r @ post) = None" unfolding s by (rule re_search_None)
    with fragment_matches [OF f] show False by blast
  qed
next
  assume a: "\<not> (\<exists>pre r post. s = pre @ r @ post \<and> is_path_fragment r)"
  show "re_search s = None"
  proof (rule ccontr)
    assume "re_search s \<noteq> None"
    then obtain r where "re_search s = Some r" by blast
    from re_search_first_fragment [OF this] a show False by blast
  qed
qed

section \<open>Reading records and asking the API\<close>

lemma str_field_Some: "str_field kvs k = Some s \<Longrightarrow> map_of kvs k = Some (JStr s)"
  by (auto simp: str_field_def split: option.splits json.splits)

lemma decode_location_fields:
  assumes "decode_location l = Some loc"
  shows "getitem_key l ''name'' = Inr (JStr (loc_name loc))"
    and "getitem_key l ''value'' = Inr (JStr (loc_value loc))"
proof -
  from assms obtain kvs where l: "l = JObj kvs" by (cases l) auto
  from assms l obtain n v where n: "str_field kvs ''name'' = Some n"
    and v: "str_field kvs ''value'' = Some v" and loc: "loc = \<lparr>loc_name = n, loc_value = v\<rparr>"
    by (auto split: option.splits)
  show "getitem_key l ''name'' = Inr (JStr (loc_name loc))"
    using str_field_Some [OF n] l loc by simp
  show "getitem_key l ''value'' = Inr (JStr (loc_value loc))"
    using str_field_Some [OF v] l loc by simp
qed

lemma decode_locations_nth:
  "decode_locations ls = Some locs \<Longrightarrow>
     length ls = length locs \<and> (\<forall>i<length locs. decode_location (ls ! i) = Some (locs ! i))"
proof (induction ls arbitrary: locs)
  case Nil
  then show ?case by simp
next
  case (Cons x xs)
  then obtain l ls' where x: "decode_location x = Some l" and xs: "decode_locations xs = Some ls'"
    and locs: "locs = l # ls'" by (auto split: option.splits)
  from Cons.IH [OF xs] x locs show ?case by (auto simp: nth_Cons split: nat.splits)
qed

lemma decode_record_fields:
  assumes "decode_record f = Some r"
  shows "getitem_key f ''accession'' = Inr (JStr (accession r))"
    and "\<exists>ls. getitem_key f ''publicFileLocations'' = Inr (JArr ls)
              \<and> decode_locations ls = Some (publicFileLocations r)"
proof -
  from assms obtain kvs where f: "f = JObj kvs" by (cases f) auto
  from assms f obtain a ls locs where a: "str_field kvs ''accession'' = Some a"
    and ls: "map_of kvs ''publicFileLocations'' = Some (JArr ls)"
    and locs: "decode_locations ls = Some locs"
    and r: "r = \<lparr>accession = a, publicFileLocations = locs\<rparr>"
    by (auto split: option.splits json.splits)
  show "getitem_key f ''accession'' = Inr (JStr (accession r))"
    using str_field_Some [OF a] f r by simp
  show "\<exists>ls. getitem_key f ''publicFileLocations'' = Inr (JArr ls)
              \<and> decode_locations ls = Some (publicFileLocations r)"
    using ls locs f r by simp
qed

lemma location_field_decoded:
  assumes "decode_record f = Some r" and "i < length (publicFileLocations r)"
  shows "location_field f i ''name'' = Inr (JStr (loc_name (publicFileLocations r ! i)))"
    and "location_field f i ''value'' = Inr (JStr (loc_value (publicFileLocations r ! i)))"
proof -
  from decode_record_fields(2) [OF assms(1)] obtain ls where
    g: "getitem_key f ''publicFileLocations'' = Inr (JArr ls)" and
    d: "decode_locations ls = Some (publicFileLocations r)" by blast
  from decode_locations_nth [OF d] assms(2) have len: "i < length ls"
    and l: "decode_location (ls ! i) = Some (publicFileLocations r ! i)" by auto
  show "location_field f i ''name'' = Inr (JStr (loc_name (publicFileLocations r ! i)))"
    using g len decode_location_fields(1) [OF l] by (simp add: location_field_def sbind_def)
  show "location_field f i ''value'' = Inr (JStr (loc_value (publicFileLocations r ! i)))"
    using g len decode_location_fields(2) [OF l] by (simp add: location_field_def sbind_def)
qed

lemma location_field_out_of_range:
  assumes "decode_record f = Some r" and "\<not> i < length (publicFileLocations r)"
  shows "location_field f i k = Inl (PyErr IndexError ''list index out of range'')"
proof -
  from decode_record_fields(2) [OF assms(1)] obtain ls where
    g: "getitem_key f ''publicFileLocations'' = Inr (JArr ls)" and
    d: "decode_locations ls = Some (publicFileLocations r)" by blast
  from decode_locations_nth [OF d] assms(2) have "\<not> i < length ls" by simp
  with g show ?thesis by (simp add: location_field_def sbind_def)
qed

lemma decode_json_file:
  "decode_locations locs = Some ls \<Longrightarrow>
     decode_record (json_file a locs) = Some \<lparr>accession = a, publicFileLocations = ls\<rparr>"
  by (simp add: json_file_def str_field_def)

lemma decode_json_location:
  "decode_location (json_location n v) = Some \<lparr>loc_name = n, loc_value = v\<rparr>"
  by (simp add: json_location_def str_field_def)

lemma raw_list_request:
  "get_all_raw_file_list acc w =
     (sbind (api_reply w (raw_list_url acc) accept_json) response_json,
      emit (ApiGet (raw_list_url acc) accept_json) w)"
  by (simp add: get_all_raw_file_list_def get_api_call_def raw_list_url_def api_base_url_def
      sbind_def Let_def split: sum.splits)

lemma submitted_prefix_of_first:
  assumes "api_reply w (raw_list_url acc) accept_json = Inr (Response (Inr (JArr (first # others))))"
    and "decode_record first = Some rec" and "publicFileLocations rec \<noteq> []"
  shows "get_submitted_file_path_prefix acc w =
           (case re_search (first_value rec) of
              None \<Rightarrow> Inl (PyErr AttributeError ''NoneType object has no attribute group'')
            | Some m \<Rightarrow> Inr m,
            emit (ApiGet (raw_list_url acc) accept_json) w)"
proof -
  have v: "location_field first 0 ''value'' = Inr (JStr (first_value rec))"
    using location_field_decoded(2) [OF assms(2), of 0] assms(3) by (simp add: first_value_def)
  show ?thesis
    unfolding get_submitted_file_path_prefix_def raw_list_request
    by (simp add: assms(1) sbind_def v split: option.splits)
qed

lemma submitted_prefix_of_empty:
  assumes "api_reply w (raw_list_url acc) accept_json = Inr (Response (Inr (JArr [])))"
  shows "get_submitted_file_path_prefix acc w =
           (Inl (PyErr IndexError ''list index out of range''),
            emit (ApiGet (raw_list_url acc) accept_json) w)"
  unfolding get_submitted_file_path_prefix_def raw_list_request
  by (simp add: assms sbind_def)

section \<open>The path fragment of a submission\<close>

lemma archive_world_reply: "api_reply (archive_world body) url headers = Inr (Response (Inr body))"
  by (simp add: archive_world_def offline_world_def)

lemma decode_archive_file:
  "decode_record archive_file =
     Some \<lparr>accession = ''PXD008644'',
           publicFileLocations =
             [\<lparr>loc_name = ''FTP Protocol'',
               loc_value = ''ftp://host/pride/data/archive/2018/10/PXD008644/7550GI_Y.raw''\<rparr>,
              \<lparr>loc_name = ''Aspera Protocol'',
               loc_value = ''prd_ascp@fasp.host:pride/data/archive/2018/10/PXD008644/7550GI_Y.raw''\<rparr>]\<rparr>"
  by (simp add: archive_file_def json_file_def json_location_def str_field_def)

lemma decode_stray_file:
  "decode_record stray_file =
     Some \<lparr>accession = ''PXD000001'',
           publicFileLocations = [\<lparr>loc_name = ''FTP Protocol'', loc_value = ''ftp://host/file.raw''\<rparr>]\<rparr>"
  by (simp add: stray_file_def json_file_def json_location_def str_field_def)

lemma re_search_archive_uri:
  "re_search ''ftp://host/pride/data/archive/2018/10/PXD008644/7550GI_Y.raw''
     = Some ''2018/10/PXD008644''"
  by code_simp

lemma re_search_stray_uri: "re_search ''ftp://host/file.raw'' = None"
  by code_simp

text \<open>
  C2. \<^verbatim>\<open>get_submitted_file_path_prefix\<close> reads the value of the first location of the
  first record of the raw-file list. What it returns is a substring of that value that is
  a path fragment (a year of four digits, \<open>/\<close>, a month of two digits, \<open>/\<close>, \<open>PXD\<close> and
  digits), taken with all the digits that follow \<open>PXD\<close>, and no path fragment starts
  further to the left; whenever the value contains a path fragment, the function returns.
  For the value \<^verbatim>\<open>ftp://host/pride/data/archive/2018/10/PXD008644/7550GI_Y.raw\<close> the
  result is \<^verbatim>\<open>2018/10/PXD008644\<close>.
\<close>

theorem path_prefix_is_first_fragment:
  assumes "api_reply w (raw_list_url acc) accept_json
             = Inr (Response (Inr (JArr (first # others))))"
    and "decode_record first = Some rec"
    and "publicFileLocations rec \<noteq> []"
  shows "(\<forall>r. fst (get_submitted_file_path_prefix acc w) = Inr r \<longrightarrow>
            (\<exists>pre post. first_value rec = pre @ r @ post \<and> is_path_fragment r
               \<and> (post = [] \<or> \<not> is_digit (hd post))
               \<and> (\<forall>pre' r' post'. first_value rec = pre' @ r' @ post' \<and> is_path_fragment r'
                     \<longrightarrow> length pre \<le> length pre')))
       \<and> ((\<exists>pre r post. first_value rec = pre @ r @ post \<and> is_path_fragment r) \<longrightarrow>
            succeeds (fst (get_submitted_file_path_prefix acc w)))
       \<and> (first_value rec = ''ftp://host/pride/data/archive/2018/10/PXD008644/7550GI_Y.raw'' \<longrightarrow>
            fst (get_submitted_file_path_prefix acc w) = Inr ''2018/10/PXD008644'')"
proof -
  note eq = submitted_prefix_of_first [OF assms]
  have a: "\<exists>pre post. first_value rec = pre @ r @ post \<and> is_path_fragment r
               \<and> (post = [] \<or> \<not> is_digit (hd post))
               \<and> (\<forall>pre' r' post'. first_value rec = pre' @ r' @ post' \<and> is_path_fragment r'
                     \<longrightarrow> length pre \<le> length pre')"
    if "fst (get_submitted_file_path_prefix acc w) = Inr r" for r
  proof -
    from that have "re_search (first_value rec) = Some r"
      unfolding eq by (simp split: option.splits)
    then show ?thesis by (rule re_search_first_fragment)
  qed
  have b: "succeeds (fst (get_submitted_file_path_prefix acc w))"
    if "\<exists>pre r post. first_value rec = pre @ r @ post \<and> is_path_fragment r"
  proof -
    from that have "re_search (first_value rec) \<noteq> None" unfolding re_search_None_iff by simp
    then show ?thesis unfolding eq by (auto simp: succeeds_def)
  qed
  have c: "fst (get_submitted_file_path_prefix acc w) = Inr ''2018/10/PXD008644''"
    if "first_value rec = ''ftp://host/pride/data/archive/2018/10/PXD008644/7550GI_Y.raw''"
  proof -
    have "re_search (first_value rec) = Some ''2018/10/PXD008644''"
      by (simp only: that re_search_archive_uri)
    then show ?thesis unfolding eq by simp
  qed
  from a b c show ?thesis by blast
qed

theorem path_prefix_is_first_fragment_witness:
  "api_reply (archive_world (JArr [archive_file])) (raw_list_url ''PXD008644'') accept_json
     = Inr (Response (Inr (JArr (archive_file # []))))
   \<and> decode_record archive_file \<noteq> None
   \<and> publicFileLocations (the (decode_record archive_file)) \<noteq> []
   \<and> fst (get_submitted_file_path_prefix ''PXD008644'' (archive_world (JArr [archive_file])))
       = Inr ''2018/10/PXD008644''"
proof -
  let ?w = "archive_world (JArr [archive_file])"
  let ?rec = "the (decode_record archive_file)"
  have h1: "api_reply ?w (raw_list_url ''PXD008644'') accept_json
              = Inr (Response (Inr (JArr (archive_file # []))))"
    by (rule archive_world_reply)
  have h2: "decode_record archive_file = Some ?rec" by (simp add: decode_archive_file)
  have h3: "publicFileLocations ?rec \<noteq> []" by (simp add: decode_archive_file)
  have v: "first_value ?rec = ''ftp://host/pride/data/archive/2018/10/PXD008644/7550GI_Y.raw''"
    by (simp add: decode_archive_file first_value_def)
  from path_prefix_is_first_fragment [OF h1 h2 h3] v
  have "fst (get_submitted_file_path_prefix ''PXD008644'' ?w) = Inr ''2018/10/PXD008644''"
    by blast
  with h1 h3 show ?thesis by (simp add: decode_archive_file)
qed

text \<open>
  C5. \<^verbatim>\<open>get_submitted_file_path_prefix\<close> raises, and handles nothing: an
  \<^verbatim>\<open>IndexError\<close> when the raw-file list of the API is empty, and an
  \<^verbatim>\<open>AttributeError\<close> (the method \<^verbatim>\<open>group\<close> of the missing match) when the value of the
  first location of the first record contains no path fragment.
\<close>

theorem path_prefix_failures:
  "(api_reply w (raw_list_url acc) accept_json = Inr (Response (Inr (JArr []))) \<longrightarrow>
      fst (get_submitted_file_path_prefix acc w)
        = Inl (PyErr IndexError ''list index out of range''))
   \<and> (api_reply w (raw_list_url acc) accept_json = Inr (Response (Inr (JArr (first # others))))
        \<and> decode_record first = Some rec \<and> publicFileLocations rec \<noteq> []
        \<and> \<not> (\<exists>pre r post. first_value rec = pre @ r @ post \<and> is_path_fragment r) \<longrightarrow>
      fst (get_submitted_file_path_prefix acc w)
        = Inl (PyErr AttributeError ''NoneType object has no attribute group''))"
proof (intro conjI impI)
  assume "api_reply w (raw_list_url acc) accept_json = Inr (Response (Inr (JArr [])))"
  then show "fst (get_submitted_file_path_prefix acc w)
        = Inl (PyErr IndexError ''list index out of range'')"
    by (simp add: submitted_prefix_of_empty)
next
  assume a: "api_reply w (raw_list_url acc) accept_json = Inr (Response (Inr (JArr (first # others))))
        \<and> decode_record first = Some rec \<and> publicFileLocations rec \<noteq> []
        \<and> \<not> (\<exists>pre r post. first_value rec = pre @ r @ post \<and> is_path_fragment r)"
  then have "re_search (first_value rec) = None" unfolding re_search_None_iff by blast
  moreover from a have "get_submitted_file_path_prefix acc w =
           (case re_search (first_value rec) of
              None \<Rightarrow> Inl (PyErr AttributeError ''NoneType object has no attribute group'')
            | Some m \<Rightarrow> Inr m,
            emit (ApiGet (raw_list_url acc) accept_json) w)"
    using submitted_prefix_of_first by blast
  ultimately show "fst (get_submitted_file_path_prefix acc w)
        = Inl (PyErr AttributeError ''NoneType object has no attribute group'')"
    by simp
qed

theorem path_prefix_failures_witness:
  "api_reply (archive_world (JArr [])) (raw_list_url ''PXD000001'') accept_json
       = Inr (Response (Inr (JArr [])))
   \<and> fst (get_submitted_file_path_prefix ''PXD000001'' (archive_world (JArr [])))
       = Inl (PyErr IndexError ''list index out of range'')
   \<and> api_reply (archive_world (JArr [stray_file])) (raw_list_url ''PXD000001'') accept_json
       = Inr (Response (Inr (JArr [stray_file])))
   \<and> decode_record stray_file \<noteq> None
   \<and> first_value (the (decode_record stray_file)) = ''ftp://host/file.raw''
   \<and> re_search ''ftp://host/file.raw'' = None
   \<and> fst (get_submitted_file_path_prefix ''PXD000001'' (archive_world (JArr [stray_file])))
       = Inl (PyErr AttributeError ''NoneType object has no attribute group'')"
proof -
  let ?rec = "the (decode_record stray_file)"
  have e1: "api_reply (archive_world (JArr [])) (raw_list_url ''PXD000001'') accept_json
       = Inr (Response (Inr (JArr [])))"
    by (rule archive_world_reply)
  have e2: "api_reply (archive_world (JArr [stray_file])) (raw_list_url ''PXD000001'') accept_json
       = Inr (Response (Inr (JArr (stray_file # []))))"
    by (rule archive_world_reply)
  have d: "decode_record stray_file = Some ?rec" by (simp add: decode_stray_file)
  have n: "publicFileLocations ?rec \<noteq> []" by (simp add: decode_stray_file)
  have v: "first_value ?rec = ''ftp://host/file.raw''"
    by (simp add: decode_stray_file first_value_def)
  have f: "\<not> (\<exists>pre r post. first_value ?rec = pre @ r @ post \<and> is_path_fragment r)"
    unfolding v using re_search_stray_uri re_search_None_iff by blast
  from path_prefix_failures [of "archive_world (JArr [])" "''PXD000001''"] e1
  have r1: "fst (get_submitted_file_path_prefix ''PXD000001'' (archive_world (JArr [])))
       = Inl (PyErr IndexError ''list index out of range'')" by blast
  from path_prefix_failures [of "archive_world (JArr [stray_file])" "''PXD000001''"
      stray_file "[]" ?rec] e2 d n f
  have r2: "fst (get_submitted_file_path_prefix ''PXD000001'' (archive_world (JArr [stray_file])))
       = Inl (PyErr AttributeError ''NoneType object has no attribute group'')" by blast
  from e1 r1 e2 v r2 re_search_stray_uri show ?thesis by (simp add: decode_stray_file)
qed

section \<open>Requests to the API\<close>

text \<open>
  C6. \<^verbatim>\<open>get_all_paged_files\<close> asks for the URL made of the base, \<open>files?\<close>, then
  \<open>filter=\<close>, the filter and \<open>&\<close> when the filter is not empty, then always
  \<open>pageSize=\<close>, \<open>&page=\<close>, \<open>&sortDirection=\<close> and \<open>&sortConditions=\<close> with their
  values as they were given. The request carries the header \<open>Accept: application/JSON\<close>,
  and the parsed body of the answer is the result, unchanged.
\<close>

theorem paged_files_request:
  "accept_json = [(''Accept'', ''application/JSON'')]
   \<and> get_all_paged_files query_filter page_size page sort_direction sort_conditions w =
       (sbind (api_reply w
                 (paged_files_url query_filter page_size page sort_direction sort_conditions)
                 accept_json) response_json,
        emit (ApiGet (paged_files_url query_filter page_size page sort_direction sort_conditions)
                accept_json) w)
   \<and> (api_reply w (paged_files_url query_filter page_size page sort_direction sort_conditions)
         accept_json = Inr (Response (Inr body)) \<longrightarrow>
       fst (get_all_paged_files query_filter page_size page sort_direction sort_conditions w)
         = Inr body)"
proof -
  have eq: "get_all_paged_files query_filter page_size page sort_direction sort_conditions w =
       (sbind (api_reply w
                 (paged_files_url query_filter page_size page sort_direction sort_conditions)
                 accept_json) response_json,
        emit (ApiGet (paged_files_url query_filter page_size page sort_direction sort_conditions)
                accept_json) w)"
    by (simp add: get_all_paged_files_def get_api_call_def paged_files_url_def api_base_url_def
        sbind_def Let_def split: sum.splits)
  then show ?thesis by (simp add: accept_json_def sbind_def)
qed

theorem paged_files_request_witness:
  "api_reply (archive_world (JArr [archive_file]))
     (paged_files_url ''accession==PXD008644'' 100 0 ''DESC'' ''fileName'') accept_json
     = Inr (Response (Inr (JArr [archive_file])))
   \<and> fst (get_all_paged_files ''accession==PXD008644'' 100 0 ''DESC'' ''fileName''
            (archive_world (JArr [archive_file]))) = Inr (JArr [archive_file])
   \<and> trace (snd (get_all_paged_files ''accession==PXD008644'' 100 0 ''DESC'' ''fileName''
                   (archive_world (JArr [archive_file])))) =
       [ApiGet ''https://www.ebi.ac.uk/pride/ws/archive/v2/files?filter=accession==PXD008644&pageSize=100&page=0&sortDirection=DESC&sortConditions=fileName''
          [(''Accept'', ''application/JSON'')]]
   \<and> trace (snd (get_all_paged_files [] 25 3 ''ASC'' ''fileName'' offline_world)) =
       [ApiGet ''https://www.ebi.ac.uk/pride/ws/archive/v2/files?pageSize=25&page=3&sortDirection=ASC&sortConditions=fileName''
          [(''Accept'', ''application/JSON'')]]"
proof -
  let ?w = "archive_world (JArr [archive_file])"
  have h: "api_reply ?w (paged_files_url ''accession==PXD008644'' 100 0 ''DESC'' ''fileName'')
             accept_json = Inr (Response (Inr (JArr [archive_file])))"
    by (rule archive_world_reply)
  have u1: "paged_files_url ''accession==PXD008644'' 100 0 ''DESC'' ''fileName'' =
     ''https://www.ebi.ac.uk/pride/ws/archive/v2/files?filter=accession==PXD008644&pageSize=100&page=0&sortDirection=DESC&sortConditions=fileName''"
    by code_simp
  have u2: "paged_files_url [] 25 3 ''ASC'' ''fileName'' =
     ''https://www.ebi.ac.uk/pride/ws/archive/v2/files?pageSize=25&page=3&sortDirection=ASC&sortConditions=fileName''"
    by code_simp
  have t0: "trace ?w = []" "trace offline_world = []"
    by (simp_all add: archive_world_def offline_world_def)
  note a = paged_files_request [of "''accession==PXD008644''" 100 0 "''DESC''" "''fileName''" ?w
      "JArr [archive_file]"]
  note b = paged_files_request [of "[]" 25 3 "''ASC''" "''fileName''" offline_world]
  from a h have r: "fst (get_all_paged_files ''accession==PXD008644'' 100 0 ''DESC'' ''fileName'' ?w)
      = Inr (JArr [archive_file])" by blast
  from a have ta: "trace (snd (get_all_paged_files ''accession==PXD008644'' 100 0 ''DESC''
      ''fileName'' ?w)) = [ApiGet (paged_files_url ''accession==PXD008644'' 100 0 ''DESC'' ''fileName'')
          [(''Accept'', ''application/JSON'')]]"
    by (simp add: emit_def t0)
  from b have tb: "trace (snd (get_all_paged_files [] 25 3 ''ASC'' ''fileName'' offline_world))
      = [ApiGet (paged_files_url [] 25 3 ''ASC'' ''fileName'') [(''Accept'', ''application/JSON'')]]"
    by (simp add: emit_def t0)
  from h r ta tb show ?thesis unfolding u1 u2 by blast
qed

text \<open>
  C4. When the call to the API or the parsing of its answer raises an exception,
  \<^verbatim>\<open>get_file_from_api\<close> raises a plain \<^verbatim>\<open>Exception\<close> whose text is
  \<open>File not found\<close> followed, with nothing in between, by the text of the exception it
  caught.
\<close>

theorem file_lookup_wraps_failure:
  assumes "api_reply w (file_by_name_url acc file_name) accept_json = Inl e
           \<or> (\<exists>resp. api_reply w (file_by_name_url acc file_name) accept_json = Inr resp
                     \<and> response_json resp = Inl e)"
  shows "fst (get_file_from_api acc file_name w)
           = Inl (PyErr GenericException (''File not found'' @ py_str_exn e))"
  using assms
  by (auto simp: get_file_from_api_def get_api_call_def file_by_name_url_def api_base_url_def
      Let_def)

theorem file_lookup_wraps_failure_witness:
  "api_reply offline_world (file_by_name_url ''PXD008644'' ''missing.raw'') accept_json
     = Inl (PyErr ConnectionError ''connection refused'')
   \<and> fst (get_file_from_api ''PXD008644'' ''missing.raw'' offline_world)
     = Inl (PyErr GenericException ''File not foundconnection refused'')
   \<and> api_reply garbled_world (file_by_name_url ''PXD008644'' ''missing.raw'') accept_json
     = Inr (Response (Inl (PyErr ValueError ''Expecting value: line 1 column 1'')))
   \<and> fst (get_file_from_api ''PXD008644'' ''missing.raw'' garbled_world)
     = Inl (PyErr GenericException ''File not foundExpecting value: line 1 column 1'')"
proof -
  have h1: "api_reply offline_world (file_by_name_url ''PXD008644'' ''missing.raw'') accept_json
     = Inl (PyErr ConnectionError ''connection refused'')"
    by (simp add: offline_world_def)
  have h2: "api_reply garbled_world (file_by_name_url ''PXD008644'' ''missing.raw'') accept_json
     = Inr (Response (Inl (PyErr ValueError ''Expecting value: line 1 column 1'')))"
    by (simp add: garbled_world_def offline_world_def)
  from h2 have h2': "\<exists>resp. api_reply garbled_world (file_by_name_url ''PXD008644'' ''missing.raw'')
      accept_json = Inr resp
      \<and> response_json resp = Inl (PyErr ValueError ''Expecting value: line 1 column 1'')"
    by simp
  from file_lookup_wraps_failure [OF disjI1, OF h1]
  have r1: "fst (get_file_from_api ''PXD008644'' ''missing.raw'' offline_world)
     = Inl (PyErr GenericException ''File not foundconnection refused'')" by simp
  from file_lookup_wraps_failure [OF disjI2, OF h2']
  have r2: "fst (get_file_from_api ''PXD008644'' ''missing.raw'' garbled_world)
     = Inl (PyErr GenericException ''File not foundExpecting value: line 1 column 1'')" by simp
  from h1 r1 h2 r2 show ?thesis by blast
qed

section \<open>Downloading from FTP\<close>

lemma select_ftp_filepath_decoded:
  assumes "decode_record f = Some r" and "locations_in_range r"
  shows "select_ftp_filepath f = Inr (JStr (ftp_uri r))"
proof -
  from assms(2) have l0: "0 < length (publicFileLocations r)"
    by (simp add: locations_in_range_def Let_def)
  note n0 = location_field_decoded(1) [OF assms(1) l0]
  note v0 = location_field_decoded(2) [OF assms(1) l0]
  show ?thesis
  proof (cases "loc_name (publicFileLocations r ! 0) = ''FTP Protocol''")
    case True
    then show ?thesis
      by (simp add: select_ftp_filepath_def n0 v0 sbind_def ftp_uri_def)
  next
    case False
    with assms(2) have l1: "1 < length (publicFileLocations r)"
      by (simp add: locations_in_range_def Let_def)
    from False show ?thesis
      by (simp add: select_ftp_filepath_def n0
          location_field_decoded(2) [OF assms(1) l1, unfolded One_nat_def] sbind_def ftp_uri_def)
  qed
qed

lemma download_file_decoded:
  assumes "decode_record f = Some r" and "downloadable r"
  shows "download_file output_folder f w =
           urlretrieve (ftp_uri r) (output_folder @ after_last_slash (ftp_uri r))
             (logging_debug (accession r @ '' -> '' @ after_last_slash (ftp_uri r))
                (logging_debug (''ftp_filepath:'' @ ftp_uri r) w))"
proof -
  from assms(2) have r: "locations_in_range r" and s: "CHR ''/'' \<in> set (ftp_uri r)"
    by (simp_all add: downloadable_def)
  show ?thesis
    by (simp add: download_file_def select_ftp_filepath_decoded [OF assms(1) r]
        decode_record_fields(1) [OF assms(1)] filename_of_path [OF s, unfolded One_nat_def]
        Let_def)
qed

lemma retrievals_append [simp]: "retrievals (xs @ ys) = retrievals xs @ retrievals ys"
  by (simp add: retrievals_def)

lemma open_for_writing_frame:
  "fs_dirs w1 = fs_dirs w \<Longrightarrow> open_for_writing path w1 = open_for_writing path w"
  by (simp add: open_for_writing_def parent_exists_def)

lemma open_for_writing_logging_debug [simp]:
  "open_for_writing path (logging_debug m w) = open_for_writing path w"
  by (rule open_for_writing_frame) (simp add: logging_debug_def emit_def)


lemma urlretrieve_frame:
  "remote (snd (urlretrieve url dst w)) = remote w"
  "fs_dirs (snd (urlretrieve url dst w)) = fs_dirs w"
  "retrievals (trace (snd (urlretrieve url dst w))) = retrievals (trace w) @ [(url, dst)]"
  by (simp_all add: urlretrieve_def emit_def retrievals_def Let_def
      split: sum.splits option.splits)


lemma logging_debug_frame:
  "remote (logging_debug m w) = remote w"
  "fs_dirs (logging_debug m w) = fs_dirs w"
  "retrievals (trace (logging_debug m w)) = retrievals (trace w)"
  "fs_files (logging_debug m w) = fs_files w"
  by (simp_all add: logging_debug_def emit_def retrievals_def)

lemma download_file_retrievals:
  assumes "decode_record f = Some r" and "downloadable r"
  shows "retrievals (trace (snd (download_file out f w)))
           = retrievals (trace w) @ [expected_retrieval out r]"
  unfolding download_file_decoded [OF assms] expected_retrieval_def
  by (simp add: urlretrieve_frame logging_debug_frame)















section \<open>Copying from a local directory\<close>

lemma copy_file_decoded:
  assumes "decode_record f = Some r" and "copyable r"
  shows "copy_file dir listing f w =
           (if after_last_slash (first_value r) \<in> set listing
            then shutil_copy2 (dir @ after_last_slash (first_value r))
                   (accession r @ ''-'' @ after_last_slash (first_value r)) w
            else (Inr (),
                  logging_error (after_last_slash (first_value r) @ '' not found in '' @ dir) w))"
proof -
  from assms(2) have l0: "0 < length (publicFileLocations r)"
    and s: "CHR ''/'' \<in> set (first_value r)" by (simp_all add: copyable_def)
  have v: "location_field f 0 ''value'' = Inr (JStr (first_value r))"
    using location_field_decoded(2) [OF assms(1) l0] by (simp add: first_value_def)
  show ?thesis
    by (simp add: copy_file_def v filename_of_path [OF s, unfolded One_nat_def]
        decode_record_fields(1) [OF assms(1)] Let_def)
qed

lemma shutil_copy2_trace:
  "trace (snd (shutil_copy2 src dst w)) = trace w @ [Copy2 src dst]"
  by (simp add: shutil_copy2_def emit_def Let_def split: option.splits)


lemma copy_file_nothing_to_do:
  assumes "decode_record f = Some r" and "copyable r"
    and "after_last_slash (first_value r) \<notin> set listing"
  shows "copy_file dir listing f w =
           (Inr (), logging_error (after_last_slash (first_value r) @ '' not found in '' @ dir) w)"
  using assms(3) unfolding copy_file_decoded [OF assms(1,2)] by simp

lemma for_each_copy_nothing:
  assumes "map decode_record files = map Some rs" and "\<forall>r\<in>set rs. copyable r"
  shows "fst (for_each (copy_file dir []) files w) = Inr ()
       \<and> trace (snd (for_each (copy_file dir []) files w))
           = trace w @ map (copy_action dir []) rs"
  using assms
proof (induction files arbitrary: rs w)
  case Nil
  then show ?case by simp
next
  case (Cons f files)
  then obtain r rs' where rs: "rs = r # rs'" and f: "decode_record f = Some r"
    and files: "map decode_record files = map Some rs'" by (cases rs) auto
  from Cons.prems(2) rs have c: "copyable r" and cs: "\<forall>r\<in>set rs'. copyable r" by auto
  have step: "copy_file dir [] f w =
           (Inr (), logging_error (after_last_slash (first_value r) @ '' not found in '' @ dir) w)"
    by (rule copy_file_nothing_to_do [OF f c]) simp
  from Cons.IH [OF files cs] show ?case
    by (simp add: step rs copy_action_def logging_error_def emit_def Let_def)
qed








lemma copies_append [simp]: "copies (xs @ ys) = copies xs @ copies ys"
  by (simp add: copies_def)


lemma decode_a_file:
  "decode_record a_file =
     Some \<lparr>accession = ''PXD008644'',
           publicFileLocations =
             [\<lparr>loc_name = ''FTP Protocol'',
               loc_value = ''ftp://host/pride/data/archive/2018/10/PXD008644/a.raw''\<rparr>]\<rparr>"
  by (simp add: a_file_def json_file_def json_location_def str_field_def)

lemma decode_c_file:
  "decode_record c_file =
     Some \<lparr>accession = ''PXD008644'',
           publicFileLocations =
             [\<lparr>loc_name = ''FTP Protocol'',
               loc_value = ''ftp://host/pride/data/archive/2018/10/PXD008644/c.raw''\<rparr>]\<rparr>"
  by (simp add: c_file_def json_file_def json_location_def str_field_def)

lemma decode_mirror_file:
  "decode_record mirror_file =
     Some \<lparr>accession = ''PXD008644'',
           publicFileLocations =
             [\<lparr>loc_name = ''Aspera Protocol'',
               loc_value = ''prd_ascp@fasp.host:archive/aspera_name.raw''\<rparr>,
              \<lparr>loc_name = ''FTP Protocol'', loc_value = ''ftp://host/archive/ftp_name.raw''\<rparr>]\<rparr>"
  by (simp add: mirror_file_def json_file_def json_location_def str_field_def)



text \<open>
  C10. \<^verbatim>\<open>copy_from_dir\<close> takes the file name from the value of location 0 whatever the
  name tag of that location is, and never reads location 1: what the body of its loop does
  is fixed by the accession and the value of location 0. \<^verbatim>\<open>download_files_from_ftp\<close>
  does look at the tag: it reads location 0 when tagged \<open>FTP Protocol\<close> and location 1
  otherwise. So for a record whose location 0 is not the FTP one, the copied file name
  comes from that non-FTP value.
\<close>

theorem copy_reads_first_location_only:
  assumes "decode_record f = Some r" and "publicFileLocations r = l0 # others"
    and "CHR ''/'' \<in> set (loc_value l0)"
  shows "copy_file sourceDir listing f w =
           (if after_last_slash (loc_value l0) \<in> set listing
            then shutil_copy2 (sourceDir @ after_last_slash (loc_value l0))
                   (accession r @ ''-'' @ after_last_slash (loc_value l0)) w
            else (Inr (),
                  logging_error (after_last_slash (loc_value l0) @ '' not found in '' @ sourceDir) w))
       \<and> (loc_name l0 = ''FTP Protocol'' \<longrightarrow>
            retrievals (trace (snd (download_file output_folder f w)))
              = retrievals (trace w)
                @ [(loc_value l0, output_folder @ after_last_slash (loc_value l0))])
       \<and> (\<forall>l1 rest. loc_name l0 \<noteq> ''FTP Protocol'' \<and> others = l1 # rest
              \<and> CHR ''/'' \<in> set (loc_value l1) \<longrightarrow>
            retrievals (trace (snd (download_file output_folder f w)))
              = retrievals (trace w)
                @ [(loc_value l1, output_folder @ after_last_slash (loc_value l1))])"
proof -
  have fv: "first_value r = loc_value l0" by (simp add: first_value_def assms(2))
  have c: "copyable r" by (simp add: copyable_def fv assms(2,3))
  have a: "copy_file sourceDir listing f w =
           (if after_last_slash (loc_value l0) \<in> set listing
            then shutil_copy2 (sourceDir @ after_last_slash (loc_value l0))
                   (accession r @ ''-'' @ after_last_slash (loc_value l0)) w
            else (Inr (),
                  logging_error (after_last_slash (loc_value l0) @ '' not found in '' @ sourceDir) w))"
    using copy_file_decoded [OF assms(1) c, of sourceDir listing w] unfolding fv .
  have b: "retrievals (trace (snd (download_file output_folder f w)))
              = retrievals (trace w)
                @ [(loc_value l0, output_folder @ after_last_slash (loc_value l0))]"
    if "loc_name l0 = ''FTP Protocol''"
  proof -
    from that have u: "ftp_uri r = loc_value l0" by (simp add: ftp_uri_def assms(2))
    have "downloadable r"
      by (simp add: downloadable_def locations_in_range_def u assms(2,3) that)
    from download_file_retrievals [OF assms(1) this] show ?thesis
      by (simp add: expected_retrieval_def u)
  qed
  have d: "retrievals (trace (snd (download_file output_folder f w)))
              = retrievals (trace w)
                @ [(loc_value l1, output_folder @ after_last_slash (loc_value l1))]"
    if "loc_name l0 \<noteq> ''FTP Protocol'' \<and> others = l1 # rest \<and> CHR ''/'' \<in> set (loc_value l1)"
    for l1 rest
  proof -
    from that have u: "ftp_uri r = loc_value l1" by (simp add: ftp_uri_def assms(2))
    have "downloadable r"
      using that by (simp add: downloadable_def locations_in_range_def u assms(2))
    from download_file_retrievals [OF assms(1) this] show ?thesis
      by (simp add: expected_retrieval_def u)
  qed
  from a b d show ?thesis by blast
qed

theorem copy_reads_first_location_only_witness:
  "decode_record mirror_file \<noteq> None
   \<and> publicFileLocations (the (decode_record mirror_file))
       = \<lparr>loc_name = ''Aspera Protocol'', loc_value = ''prd_ascp@fasp.host:archive/aspera_name.raw''\<rparr>
         # [\<lparr>loc_name = ''FTP Protocol'', loc_value = ''ftp://host/archive/ftp_name.raw''\<rparr>]
   \<and> trace (snd (copy_file ''/nfs/'' [''ftp_name.raw''] mirror_file offline_world))
       = [LogError ''aspera_name.raw not found in /nfs/'']
   \<and> trace (snd (copy_file ''/nfs/'' [''aspera_name.raw''] mirror_file offline_world))
       = [Copy2 ''/nfs/aspera_name.raw'' ''PXD008644-aspera_name.raw'']
   \<and> retrievals (trace (snd (download_file ''out/'' mirror_file offline_world)))
       = [(''ftp://host/archive/ftp_name.raw'', ''out/ftp_name.raw'')]"
proof -
  let ?r = "the (decode_record mirror_file)"
  let ?l0 = "\<lparr>loc_name = ''Aspera Protocol'', loc_value = ''prd_ascp@fasp.host:archive/aspera_name.raw''\<rparr>"
  let ?l1 = "\<lparr>loc_name = ''FTP Protocol'', loc_value = ''ftp://host/archive/ftp_name.raw''\<rparr>"
  have h1: "decode_record mirror_file = Some ?r" by (simp add: decode_mirror_file)
  have h2: "publicFileLocations ?r = ?l0 # [?l1]" by (simp add: decode_mirror_file)
  have h3: "CHR ''/'' \<in> set (loc_value ?l0)" by simp
  have n0: "after_last_slash (loc_value ?l0) = ''aspera_name.raw''"
    by (simp add: after_last_slash_def)
  have n1: "after_last_slash (loc_value ?l1) = ''ftp_name.raw''"
    by (simp add: after_last_slash_def)
  have t0: "trace offline_world = []" by (simp add: offline_world_def)
  have acc: "accession ?r = ''PXD008644''" by (simp add: decode_mirror_file)
  note t = copy_reads_first_location_only [OF h1 h2 h3]
  from t [of "''/nfs/''" "[''ftp_name.raw'']" offline_world]
  have a: "trace (snd (copy_file ''/nfs/'' [''ftp_name.raw''] mirror_file offline_world))
       = [LogError ''aspera_name.raw not found in /nfs/'']"
    unfolding n0 by (simp add: logging_error_def emit_def t0)
  from t [of "''/nfs/''" "[''aspera_name.raw'']" offline_world]
  have b: "trace (snd (copy_file ''/nfs/'' [''aspera_name.raw''] mirror_file offline_world))
       = [Copy2 ''/nfs/aspera_name.raw'' ''PXD008644-aspera_name.raw'']"
    unfolding n0 acc by (simp add: shutil_copy2_trace t0)
  from t [of _ _ offline_world "''out/''"]
  have "retrievals (trace (snd (download_file ''out/'' mirror_file offline_world)))
       = retrievals (trace offline_world) @ [(loc_value ?l1, ''out/'' @ after_last_slash (loc_value ?l1))]"
    by simp
  then have c: "retrievals (trace (snd (download_file ''out/'' mirror_file offline_world)))
       = [(''ftp://host/archive/ftp_name.raw'', ''out/ftp_name.raw'')]"
    unfolding n1 by (simp add: t0 retrievals_def)
  from a b c show ?thesis by (simp add: decode_mirror_file)
qed

section \<open>Listing a local directory\<close>




section \<open>A source directory that is not there\<close>

lemma submitted_prefix_world:
  "snd (get_submitted_file_path_prefix acc w) = emit (ApiGet (raw_list_url acc) accept_json) w"
  unfolding get_submitted_file_path_prefix_def raw_list_request
  by (simp split: sum.splits json.splits option.splits)

lemma emit_frame:
  "api_reply (emit e w) = api_reply w"
  "remote (emit e w) = remote w"
  "fs_files (emit e w) = fs_files w"
  "fs_dirs (emit e w) = fs_dirs w"
  "fs_glob (emit e w) = fs_glob w"
  "mkdir_fault (emit e w) = mkdir_fault w"
  "trace (emit e w) = trace w @ [e]"
  by (simp_all add: emit_def)

lemma copy_file_nothing_listed:
  "fs_files (snd (copy_file dir [] f w)) = fs_files w"
  by (simp add: copy_file_def logging_error_def emit_frame split: sum.splits json.splits)

lemma for_each_copy_nothing_listed:
  "fs_files (snd (for_each (copy_file dir []) files w)) = fs_files w"
proof (induction files arbitrary: w)
  case Nil
  then show ?case by simp
next
  case (Cons f files)
  obtain res w1 where step: "copy_file dir [] f w = (res, w1)" by (cases "copy_file dir [] f w")
  with copy_file_nothing_listed [of dir f w] have "fs_files w1 = fs_files w" by simp
  with Cons.IH [of w1] step show ?case by (cases res) simp_all
qed

lemma copy_action_nothing_listed:
  "copy_action dir [] r = LogError (after_last_slash (first_value r) @ '' not found in '' @ dir)"
  by (simp add: copy_action_def Let_def)

lemma copies_log_errors: "copies (map (\<lambda>r. LogError (g r)) rs) = []"
  by (induction rs) (simp_all add: copies_def)

text \<open>
  C9. When the source directory, the base followed by \<open>/\<close>, the path fragment and
  \<open>/submitted/\<close>, does not exist, \<^verbatim>\<open>copy_raw_files_from_dir\<close> logs that and goes on
  without raising. The listing of the directory is then empty, so every API record is
  logged as not found and no file is copied. Here the path fragment has been resolved, the
  API records are file records with a first location whose value contains a \<open>/\<close>, and
  \<^verbatim>\<open>glob.glob\<close> finds no path under a directory that does not exist.
\<close>

theorem missing_source_dir_is_logged:
  assumes "api_reply w (raw_list_url acc) accept_json = Inr (Response (Inr (JArr files)))"
    and "map decode_record files = map Some rs"
    and "\<forall>r\<in>set rs. copyable r"
    and "fst (get_submitted_file_path_prefix acc w) = Inr path_fragment"
    and "\<not> os_path_isdir (base @ ''/'' @ path_fragment @ ''/submitted/'') w"
    and "fs_glob w ((base @ ''/'' @ path_fragment @ ''/submitted/'') @ ''*.raw'') = []"
  shows "fst (copy_raw_files_from_dir acc base w) = Inr ()
       \<and> trace (snd (copy_raw_files_from_dir acc base w))
           = trace w
             @ [ApiGet (raw_list_url acc) accept_json,
                LogException (''Folder does not exists! '' @ base @ ''/'' @ path_fragment @ ''/submitted/''),
                GlobCall ((base @ ''/'' @ path_fragment @ ''/submitted/'') @ ''*.raw''),
                ApiGet (raw_list_url acc) accept_json]
             @ map (\<lambda>r. LogError (after_last_slash (first_value r) @ '' not found in ''
                                    @ base @ ''/'' @ path_fragment @ ''/submitted/'')) rs
       \<and> copies (trace (snd (copy_raw_files_from_dir acc base w))) = copies (trace w)
       \<and> fs_files (snd (copy_raw_files_from_dir acc base w)) = fs_files w"
proof -
  let ?dir = "base @ ''/'' @ path_fragment @ ''/submitted/''"
  let ?get = "ApiGet (raw_list_url acc) accept_json"
  let ?w1 = "emit ?get w"
  let ?w2 = "emit (LogException (''Folder does not exists! '' @ ?dir)) ?w1"
  let ?w3 = "emit (GlobCall (?dir @ ''*.raw'')) ?w2"
  let ?w4 = "emit ?get ?w3"
  have p: "get_submitted_file_path_prefix acc w = (Inr path_fragment, ?w1)"
    using assms(4) submitted_prefix_world [of acc w]
    by (cases "get_submitted_file_path_prefix acc w") simp
  have nd: "\<not> os_path_isdir ?dir ?w1"
    using assms(5) by (simp add: os_path_isdir_def emit_frame)
  have g: "get_files_from_dir ?dir ''*.raw'' ?w2 = (Inr [], ?w3)"
    using assms(6) by (simp add: get_files_from_dir_def glob_glob_def emit_frame)
  have l: "get_all_raw_file_list acc ?w3 = (Inr (JArr files), ?w4)"
    unfolding raw_list_request using assms(1) by (simp add: emit_frame sbind_def)
  have run: "copy_raw_files_from_dir acc base w = for_each (copy_file ?dir []) files ?w4"
    unfolding copy_raw_files_from_dir_def p
    using nd g l by (simp add: logging_exception_def copy_from_dir_def Let_def)
  note c = for_each_copy_nothing [OF assms(2,3), of ?dir ?w4]
  have t: "trace (snd (copy_raw_files_from_dir acc base w))
           = trace w @ [?get, LogException (''Folder does not exists! '' @ ?dir),
                GlobCall (?dir @ ''*.raw''), ?get]
             @ map (\<lambda>r. LogError (after_last_slash (first_value r) @ '' not found in '' @ ?dir)) rs"
    unfolding run using c by (simp add: emit_frame copy_action_nothing_listed)
  have k: "copies (trace (snd (copy_raw_files_from_dir acc base w))) = copies (trace w)"
    unfolding t by (simp add: copies_log_errors) (simp add: copies_def)
  have f: "fs_files (snd (copy_raw_files_from_dir acc base w)) = fs_files w"
    unfolding run by (simp add: for_each_copy_nothing_listed emit_frame)
  from c t k f show ?thesis unfolding run by simp
qed

theorem missing_source_dir_is_logged_witness:
  "api_reply (archive_world (JArr [a_file, c_file])) (raw_list_url ''PXD008644'') accept_json
     = Inr (Response (Inr (JArr [a_file, c_file])))
   \<and> map decode_record [a_file, c_file]
       = map Some [the (decode_record a_file), the (decode_record c_file)]
   \<and> copyable (the (decode_record a_file))
   \<and> copyable (the (decode_record c_file))
   \<and> fst (get_submitted_file_path_prefix ''PXD008644'' (archive_world (JArr [a_file, c_file])))
       = Inr ''2018/10/PXD008644''
   \<and> \<not> os_path_isdir (''/nfs/pride'' @ ''/'' @ ''2018/10/PXD008644'' @ ''/submitted/'')
         (archive_world (JArr [a_file, c_file]))
   \<and> fs_glob (archive_world (JArr [a_file, c_file]))
         ((''/nfs/pride'' @ ''/'' @ ''2018/10/PXD008644'' @ ''/submitted/'') @ ''*.raw'') = []
   \<and> fst (copy_raw_files_from_dir ''PXD008644'' ''/nfs/pride'' (archive_world (JArr [a_file, c_file])))
       = Inr ()
   \<and> trace (snd (copy_raw_files_from_dir ''PXD008644'' ''/nfs/pride''
                   (archive_world (JArr [a_file, c_file]))))
       = [ApiGet ''https://www.ebi.ac.uk/pride/ws/archive/v2/files/byProject?accession=PXD008644,fileCategory.value==RAW''
            [(''Accept'', ''application/JSON'')],
          LogException ''Folder does not exists! /nfs/pride/2018/10/PXD008644/submitted/'',
          GlobCall ''/nfs/pride/2018/10/PXD008644/submitted/*.raw'',
          ApiGet ''https://www.ebi.ac.uk/pride/ws/archive/v2/files/byProject?accession=PXD008644,fileCategory.value==RAW''
            [(''Accept'', ''application/JSON'')],
          LogError ''a.raw not found in /nfs/pride/2018/10/PXD008644/submitted/'',
          LogError ''c.raw not found in /nfs/pride/2018/10/PXD008644/submitted/'']"
proof -
  let ?w = "archive_world (JArr [a_file, c_file])"
  let ?ra = "the (decode_record a_file)"
  let ?rc = "the (decode_record c_file)"
  have h1: "api_reply ?w (raw_list_url ''PXD008644'') accept_json
     = Inr (Response (Inr (JArr [a_file, c_file])))"
    by (rule archive_world_reply)
  have h2: "map decode_record [a_file, c_file] = map Some [?ra, ?rc]"
    by (simp add: decode_a_file decode_c_file)
  have va: "first_value ?ra = ''ftp://host/pride/data/archive/2018/10/PXD008644/a.raw''"
    by (simp add: decode_a_file first_value_def)
  have vc: "first_value ?rc = ''ftp://host/pride/data/archive/2018/10/PXD008644/c.raw''"
    by (simp add: decode_c_file first_value_def)
  have h3: "\<forall>r\<in>set [?ra, ?rc]. copyable r"
    by (simp add: copyable_def va vc) (simp add: decode_a_file decode_c_file)
  have s: "re_search ''ftp://host/pride/data/archive/2018/10/PXD008644/a.raw''
             = Some ''2018/10/PXD008644''" by code_simp
  have d: "decode_record a_file = Some ?ra" by (simp add: decode_a_file)
  have ne: "publicFileLocations ?ra \<noteq> []" by (simp add: decode_a_file)
  have "re_search (first_value ?ra) = Some ''2018/10/PXD008644''"
    by (simp only: va s)
  then have h4: "fst (get_submitted_file_path_prefix ''PXD008644'' ?w) = Inr ''2018/10/PXD008644''"
    unfolding submitted_prefix_of_first [OF h1 d ne] by simp
  have h5: "\<not> os_path_isdir (''/nfs/pride'' @ ''/'' @ ''2018/10/PXD008644'' @ ''/submitted/'') ?w"
    by (simp add: os_path_isdir_def archive_world_def offline_world_def)
  have h6: "fs_glob ?w ((''/nfs/pride'' @ ''/'' @ ''2018/10/PXD008644'' @ ''/submitted/'') @ ''*.raw'') = []"
    by (simp add: archive_world_def offline_world_def)
  have t0: "trace ?w = []" by (simp add: archive_world_def offline_world_def)
  have na: "after_last_slash (first_value ?ra) = ''a.raw''"
    unfolding va by (simp add: after_last_slash_def)
  have nc: "after_last_slash (first_value ?rc) = ''c.raw''"
    unfolding vc by (simp add: after_last_slash_def)
  have u: "raw_list_url ''PXD008644'' =
     ''https://www.ebi.ac.uk/pride/ws/archive/v2/files/byProject?accession=PXD008644,fileCategory.value==RAW''"
    by (simp add: raw_list_url_def)
  from missing_source_dir_is_logged [OF h1 h2 h3 h4 h5 h6]
  have r: "fst (copy_raw_files_from_dir ''PXD008644'' ''/nfs/pride'' ?w) = Inr ()"
    and t: "trace (snd (copy_raw_files_from_dir ''PXD008644'' ''/nfs/pride'' ?w))
       = [ApiGet ''https://www.ebi.ac.uk/pride/ws/archive/v2/files/byProject?accession=PXD008644,fileCategory.value==RAW''
            [(''Accept'', ''application/JSON'')],
          LogException ''Folder does not exists! /nfs/pride/2018/10/PXD008644/submitted/'',
          GlobCall ''/nfs/pride/2018/10/PXD008644/submitted/*.raw'',
          ApiGet ''https://www.ebi.ac.uk/pride/ws/archive/v2/files/byProject?accession=PXD008644,fileCategory.value==RAW''
            [(''Accept'', ''application/JSON'')],
          LogError ''a.raw not found in /nfs/pride/2018/10/PXD008644/submitted/'',
          LogError ''c.raw not found in /nfs/pride/2018/10/PXD008644/submitted/'']"
    by (simp_all add: t0 na nc u accept_json_def)
  from h1 h2 h3 h4 h5 h6 r t show ?thesis by simp
qed

section \<open>The output folder\<close>

lemma mkdirs_append [simp]: "mkdirs (xs @ ys) = mkdirs xs @ mkdirs ys"
  by (simp add: mkdirs_def)

lemma urlretrieve_dirs:
  "fs_dirs (snd (urlretrieve url dst w)) = fs_dirs w"
  "mkdirs (trace (snd (urlretrieve url dst w))) = mkdirs (trace w)"
  by (simp_all add: urlretrieve_def emit_def mkdirs_def Let_def split: sum.splits option.splits)

lemma logging_debug_dirs:
  "fs_dirs (logging_debug m w) = fs_dirs w"
  "mkdirs (trace (logging_debug m w)) = mkdirs (trace w)"
  by (simp_all add: logging_debug_def emit_def mkdirs_def)

lemma download_file_dirs:
  "fs_dirs (snd (download_file out f w)) = fs_dirs w
   \<and> mkdirs (trace (snd (download_file out f w))) = mkdirs (trace w)"
  by (simp add: download_file_def urlretrieve_dirs logging_debug_dirs Let_def
      split: sum.splits json.splits)

lemma for_each_download_dirs:
  "fs_dirs (snd (for_each (download_file out) files w)) = fs_dirs w
   \<and> mkdirs (trace (snd (for_each (download_file out) files w))) = mkdirs (trace w)"
proof (induction files arbitrary: w)
  case Nil
  then show ?case by simp
next
  case (Cons f files)
  obtain res w1 where step: "download_file out f w = (res, w1)" by (cases "download_file out f w")
  with download_file_dirs [of out f w] have "fs_dirs w1 = fs_dirs w"
    and "mkdirs (trace w1) = mkdirs (trace w)" by simp_all
  with Cons.IH [of w1] step show ?case by (cases res) simp_all
qed

lemma download_files_dirs:
  "fs_dirs (snd (download_files_from_ftp body out w)) = fs_dirs w
   \<and> mkdirs (trace (snd (download_files_from_ftp body out w))) = mkdirs (trace w)"
  by (simp add: download_files_from_ftp_def for_each_download_dirs split: sum.splits)


lemma mkdirs_simps [simp]:
  "mkdirs [] = []"
  "mkdirs (e # es) = mkdir_of e @ mkdirs es"
  by (simp_all add: mkdirs_def)

lemma mkdirs_emit:
  "mkdirs (trace (emit e w)) = mkdirs (trace w) @ mkdir_of e"
  by (simp add: emit_def mkdirs_def)

lemma file_lookup_world:
  "snd (get_file_from_api acc file_name w)
     = emit (ApiGet (file_by_name_url acc file_name) accept_json) w"
  by (simp add: get_file_from_api_def get_api_call_def file_by_name_url_def api_base_url_def
      Let_def split: sum.splits)

lemma list_then_download_dirs:
  "fs_dirs (snd (list_then_download acc out w)) = fs_dirs w
   \<and> mkdirs (trace (snd (list_then_download acc out w))) = mkdirs (trace w)"
  unfolding list_then_download_def raw_list_request
  by (simp add: download_files_dirs mkdirs_emit emit_frame split: sum.splits)

lemma lookup_then_download_dirs:
  "fs_dirs (snd (lookup_then_download acc file_name out w)) = fs_dirs w
   \<and> mkdirs (trace (snd (lookup_then_download acc file_name out w))) = mkdirs (trace w)"
proof (cases "get_file_from_api acc file_name w")
  case (Pair res w2)
  with file_lookup_world [of acc file_name w]
  have w2: "w2 = emit (ApiGet (file_by_name_url acc file_name) accept_json) w" by simp
  show ?thesis
    unfolding lookup_then_download_def Pair
    by (cases res) (simp_all add: w2 download_files_dirs mkdirs_emit emit_frame)
qed

lemma os_mkdir_trace:
  "mkdirs (trace (snd (os_mkdir path w))) = mkdirs (trace w) @ [path]"
  by (simp add: os_mkdir_def emit_def mkdirs_def Let_def split: option.splits)

lemma os_mkdir_fresh:
  assumes "path \<notin> fs_dirs w" and "path \<notin> dom (fs_files w)" and "mkdir_fault w path = None"
  shows "fst (os_mkdir path w) = Inr ()"
    and "fs_dirs (snd (os_mkdir path w)) = insert path (fs_dirs w)"
  using assms by (simp_all add: os_mkdir_def emit_def Let_def)

lemma ensure_then:
  "download_raw_files_from_ftp acc out w =
     (if os_path_isdir out w then list_then_download acc out w
      else case os_mkdir out w of
             (Inl e, w1) \<Rightarrow> (Inl e, w1)
           | (Inr u, w1) \<Rightarrow> list_then_download acc out w1)"
  "download_file_from_ftp_by_name acc file_name out w =
     (if os_path_isdir out w then lookup_then_download acc file_name out w
      else case os_mkdir out w of
             (Inl e, w1) \<Rightarrow> (Inl e, w1)
           | (Inr u, w1) \<Rightarrow> lookup_then_download acc file_name out w1)"
  by (simp_all add: download_raw_files_from_ftp_def download_file_from_ftp_by_name_def
      list_then_download_def lookup_then_download_def split: prod.splits sum.splits)

lemma ensure_absent:
  assumes "\<not> os_path_isdir out w"
  shows "mkdirs (trace (snd (download_raw_files_from_ftp acc out w))) = mkdirs (trace w) @ [out]"
    and "mkdirs (trace (snd (download_file_from_ftp_by_name acc file_name out w)))
           = mkdirs (trace w) @ [out]"
proof -
  obtain res w1 where m: "os_mkdir out w = (res, w1)" by (cases "os_mkdir out w")
  with os_mkdir_trace [of out w] have t1: "mkdirs (trace w1) = mkdirs (trace w) @ [out]"
    by simp
  show "mkdirs (trace (snd (download_raw_files_from_ftp acc out w))) = mkdirs (trace w) @ [out]"
    unfolding ensure_then using assms m t1
    by (cases res) (simp_all add: list_then_download_dirs)
  show "mkdirs (trace (snd (download_file_from_ftp_by_name acc file_name out w)))
           = mkdirs (trace w) @ [out]"
    unfolding ensure_then using assms m t1
    by (cases res) (simp_all add: lookup_then_download_dirs)
qed

lemma ensure_created:
  assumes "\<not> os_path_isdir out w" and "out \<notin> dom (fs_files w)" and "mkdir_fault w out = None"
  shows "os_path_isdir out (snd (download_raw_files_from_ftp acc out w))"
    and "os_path_isdir out (snd (download_file_from_ftp_by_name acc file_name out w))"
proof -
  obtain res w1 where m: "os_mkdir out w = (res, w1)" by (cases "os_mkdir out w")
  from assms have fresh: "out \<notin> fs_dirs w" "out \<notin> dom (fs_files w)" "mkdir_fault w out = None"
    by (simp_all add: os_path_isdir_def)
  from os_mkdir_fresh [OF fresh] m have res: "res = Inr ()" and d1: "out \<in> fs_dirs w1"
    by simp_all
  show "os_path_isdir out (snd (download_raw_files_from_ftp acc out w))"
    unfolding ensure_then using assms(1) m res d1
    by (simp add: list_then_download_dirs os_path_isdir_def)
  show "os_path_isdir out (snd (download_file_from_ftp_by_name acc file_name out w))"
    unfolding ensure_then using assms(1) m res d1
    by (simp add: lookup_then_download_dirs os_path_isdir_def)
qed

lemma ensure_present:
  assumes "os_path_isdir out w"
  shows "download_raw_files_from_ftp acc out w = list_then_download acc out w"
    and "download_file_from_ftp_by_name acc file_name out w
           = lookup_then_download acc file_name out w"
    and "mkdirs (trace (snd (download_raw_files_from_ftp acc out w))) = mkdirs (trace w)"
    and "mkdirs (trace (snd (download_file_from_ftp_by_name acc file_name out w)))
           = mkdirs (trace w)"
    and "os_path_isdir out (snd (download_raw_files_from_ftp acc out w))"
    and "os_path_isdir out (snd (download_file_from_ftp_by_name acc file_name out w))"
  unfolding ensure_then using assms
  by (simp_all add: list_then_download_dirs lookup_then_download_dirs os_path_isdir_def)

text \<open>
  C8. \<^verbatim>\<open>download_raw_files_from_ftp\<close> and \<^verbatim>\<open>download_file_from_ftp_by_name\<close> call
  \<^verbatim>\<open>os.mkdir\<close> on the output folder only when it is not a directory yet. With the folder
  there, the step does nothing and cannot raise: each function is what follows the step,
  no directory is created, and the folder is still there afterwards, so the function can be
  run again and again. With the folder absent, \<^verbatim>\<open>os.mkdir\<close> is called once; when it
  succeeds, a second run creates nothing more.
\<close>

theorem output_folder_created_only_when_absent:
  "(os_path_isdir out w \<longrightarrow>
      download_raw_files_from_ftp acc out w = list_then_download acc out w
    \<and> download_file_from_ftp_by_name acc file_name out w
        = lookup_then_download acc file_name out w
    \<and> mkdirs (trace (snd (download_raw_files_from_ftp acc out w))) = mkdirs (trace w)
    \<and> mkdirs (trace (snd (download_file_from_ftp_by_name acc file_name out w)))
        = mkdirs (trace w)
    \<and> os_path_isdir out (snd (download_raw_files_from_ftp acc out w))
    \<and> os_path_isdir out (snd (download_file_from_ftp_by_name acc file_name out w)))
   \<and> (\<not> os_path_isdir out w \<longrightarrow>
      mkdirs (trace (snd (download_raw_files_from_ftp acc out w))) = mkdirs (trace w) @ [out]
    \<and> mkdirs (trace (snd (download_file_from_ftp_by_name acc file_name out w)))
        = mkdirs (trace w) @ [out])
   \<and> (\<not> os_path_isdir out w \<and> out \<notin> dom (fs_files w) \<and> mkdir_fault w out = None \<longrightarrow>
      mkdirs (trace (snd (download_raw_files_from_ftp acc out
                            (snd (download_raw_files_from_ftp acc out w)))))
        = mkdirs (trace w) @ [out]
    \<and> mkdirs (trace (snd (download_file_from_ftp_by_name acc file_name out
                            (snd (download_file_from_ftp_by_name acc file_name out w)))))
        = mkdirs (trace w) @ [out])"
proof (intro conjI impI)
  assume p: "os_path_isdir out w"
  from ensure_present [OF p]
  show "download_raw_files_from_ftp acc out w = list_then_download acc out w"
    and "download_file_from_ftp_by_name acc file_name out w
        = lookup_then_download acc file_name out w"
    and "mkdirs (trace (snd (download_raw_files_from_ftp acc out w))) = mkdirs (trace w)"
    and "mkdirs (trace (snd (download_file_from_ftp_by_name acc file_name out w)))
        = mkdirs (trace w)"
    and "os_path_isdir out (snd (download_raw_files_from_ftp acc out w))"
    and "os_path_isdir out (snd (download_file_from_ftp_by_name acc file_name out w))"
    by simp_all
next
  assume a: "\<not> os_path_isdir out w"
  from ensure_absent(1,2) [OF a]
  show "mkdirs (trace (snd (download_raw_files_from_ftp acc out w))) = mkdirs (trace w) @ [out]"
    and "mkdirs (trace (snd (download_file_from_ftp_by_name acc file_name out w)))
        = mkdirs (trace w) @ [out]"
    by simp_all
next
  assume b: "\<not> os_path_isdir out w \<and> out \<notin> dom (fs_files w) \<and> mkdir_fault w out = None"
  then have a: "\<not> os_path_isdir out w" and f: "out \<notin> dom (fs_files w)"
    and m: "mkdir_fault w out = None" by simp_all
  from ensure_created(1) [OF a f m]
  have "os_path_isdir out (snd (download_raw_files_from_ftp acc out w))" .
  from ensure_present(3) [OF this] ensure_absent(1) [OF a]
  show "mkdirs (trace (snd (download_raw_files_from_ftp acc out
                            (snd (download_raw_files_from_ftp acc out w)))))
        = mkdirs (trace w) @ [out]" by simp
  from ensure_created(2) [OF a f m]
  have "os_path_isdir out (snd (download_file_from_ftp_by_name acc file_name out w))" .
  from ensure_present(4) [OF this] ensure_absent(2) [OF a]
  show "mkdirs (trace (snd (download_file_from_ftp_by_name acc file_name out
                            (snd (download_file_from_ftp_by_name acc file_name out w)))))
        = mkdirs (trace w) @ [out]" by simp
qed

theorem output_folder_created_only_when_absent_witness:
  "os_path_isdir ''out/'' ready_world
   \<and> mkdirs (trace (snd (download_raw_files_from_ftp ''PXD008644'' ''out/'' ready_world))) = []
   \<and> mkdirs (trace (snd (download_file_from_ftp_by_name ''PXD008644'' ''7550GI_Y.raw'' ''out/''
                             ready_world))) = []
   \<and> \<not> os_path_isdir ''out/'' (archive_world (JArr [archive_file]))
   \<and> ''out/'' \<notin> dom (fs_files (archive_world (JArr [archive_file])))
   \<and> mkdir_fault (archive_world (JArr [archive_file])) ''out/'' = None
   \<and> mkdirs (trace (snd (download_raw_files_from_ftp ''PXD008644'' ''out/''
                  (snd (download_raw_files_from_ftp ''PXD008644'' ''out/''
                         (archive_world (JArr [archive_file]))))))) = [''out/'']"
proof -
  let ?w = "archive_world (JArr [archive_file])"
  have h1: "os_path_isdir ''out/'' ready_world"
    by (simp add: os_path_isdir_def ready_world_def)
  have t1: "trace ready_world = []"
    by (simp add: ready_world_def archive_world_def offline_world_def)
  have h2: "\<not> os_path_isdir ''out/'' ?w"
    by (simp add: os_path_isdir_def archive_world_def offline_world_def)
  have h3: "''out/'' \<notin> dom (fs_files ?w)" by (simp add: archive_world_def offline_world_def)
  have h4: "mkdir_fault ?w ''out/'' = None" by (simp add: archive_world_def offline_world_def)
  have t2: "trace ?w = []" by (simp add: archive_world_def offline_world_def)
  from output_folder_created_only_when_absent
         [of "''out/''" ready_world "''PXD008644''" "''7550GI_Y.raw''"] h1
  have a: "mkdirs (trace (snd (download_raw_files_from_ftp ''PXD008644'' ''out/'' ready_world))) = []"
    and b: "mkdirs (trace (snd (download_file_from_ftp_by_name ''PXD008644'' ''7550GI_Y.raw'' ''out/''
                             ready_world))) = []"
    by (simp_all add: t1 mkdirs_def)
  from output_folder_created_only_when_absent
         [of "''out/''" ?w "''PXD008644''" "''7550GI_Y.raw''"] h2 h3 h4
  have c: "mkdirs (trace (snd (download_raw_files_from_ftp ''PXD008644'' ''out/''
                  (snd (download_raw_files_from_ftp ''PXD008644'' ''out/'' ?w))))) = [''out/'']"
    by (simp add: t2 mkdirs_def)
  from h1 a b h2 h3 h4 c show ?thesis by blast
qed

end
